theory Spec2Isabelle
  imports Complex_Main "HOL-Library.Log_Nat" "HOL-Library.AList"
begin

section \<open>JavaScript values used by the gateway\<close>

text \<open>
  The gateway (\<^verbatim>\<open>src/MultichainPaymentGateway.jsx\<close>) is JavaScript: its numbers are
  IEEE-754 doubles, its strings are sequences of characters, and a method applied to a
  value that does not have it throws a \<^verbatim>\<open>TypeError\<close>. A finite double is
  modelled by the rational number it denotes, so every arithmetic step is the exact
  operation followed by rounding to the nearest double (ties to even). The sign of zero
  is not modelled: no operation of the program observes it.
\<close>

datatype number = NaN | PosInf | NegInf | Fin rat

datatype js_error =
    TypeError string
  | SyntaxError string
  | ProviderError "int option" string

text \<open>
  \<open>ProviderError c m\<close> is an error object a wallet request rejects with: \<open>c\<close>
  is its \<^verbatim>\<open>code\<close> (when it has one) and \<open>m\<close> its \<^verbatim>\<open>message\<close>
  (empty when it has none). The message texts of \<open>TypeError\<close> and
  \<open>SyntaxError\<close> are those of V8.
\<close>

definition error_code :: "js_error \<Rightarrow> int option" where
  "error_code e = (case e of ProviderError c m \<Rightarrow> c | _ \<Rightarrow> None)"

definition error_message :: "js_error \<Rightarrow> string" where
  "error_message e = (case e of TypeError m \<Rightarrow> m | SyntaxError m \<Rightarrow> m | ProviderError c m \<Rightarrow> m)"

datatype jsval = JUndefined | JNum number | JStr string

text \<open>
  What \<^verbatim>\<open>functionSignatures[functionName]\<close> and so \<^verbatim>\<open>encodeFunctionCall\<close> can
  yield: \<^verbatim>\<open>undefined\<close>, a member every plain object inherits from
  \<^verbatim>\<open>Object.prototype\<close>, or a string.
\<close>

datatype payload = Undefined | Member string | Str string

subsection \<open>Rounding to a double\<close>

definition pow2 :: "int \<Rightarrow> rat" where
  "pow2 k = (if 0 \<le> k then 2 ^ nat k else 1 / 2 ^ nat (- k))"

text \<open>\<open>ilog2 x\<close> is the binary exponent \<open>\<lfloor>log\<^sub>2 x\<rfloor>\<close> of a positive rational.\<close>

definition ilog2 :: "rat \<Rightarrow> int" where
  "ilog2 x = (if 1 \<le> x then bitlen \<lfloor>x\<rfloor> - 1 else - bitlen (\<lceil>1 / x\<rceil> - 1))"

definition round_half_even :: "rat \<Rightarrow> int" where
  "round_half_even y = (let f = \<lfloor>y\<rfloor>; d = y - of_int f in
     if d < 1 / 2 then f else if 1 / 2 < d then f + 1 else if even f then f else f + 1)"

text \<open>
  The nearest binary64 value of a positive rational: 53 significant bits, exponents
  from \<open>-1022\<close> (below that the spacing stays \<open>2\<^sup>-\<^sup>1\<^sup>0\<^sup>7\<^sup>4\<close>) to \<open>1023\<close>
  (above that, infinity).
\<close>

definition fl_pos :: "rat \<Rightarrow> number" where
  "fl_pos x = (let e = ilog2 x in
     if 1024 \<le> e then PosInf
     else (let e' = max e (- 1022); q = pow2 (e' - 52); m = round_half_even (x / q)
           in if e' = 1023 \<and> m = 2 ^ 53 then PosInf else Fin (of_int m * q)))"

definition neg :: "number \<Rightarrow> number" where
  "neg n = (case n of NaN \<Rightarrow> NaN | PosInf \<Rightarrow> NegInf | NegInf \<Rightarrow> PosInf | Fin r \<Rightarrow> Fin (- r))"

definition fl :: "rat \<Rightarrow> number" where
  "fl x = (if x = 0 then Fin 0 else if x < 0 then neg (fl_pos (- x)) else fl_pos x)"

subsection \<open>Arithmetic on numbers\<close>

definition num_sgn :: "number \<Rightarrow> int" where
  "num_sgn n = (case n of NaN \<Rightarrow> 0 | PosInf \<Rightarrow> 1 | NegInf \<Rightarrow> - 1
                | Fin r \<Rightarrow> (if r < 0 then - 1 else if r = 0 then 0 else 1))"

definition num_inf :: "int \<Rightarrow> number" where
  "num_inf s = (if s = 0 then NaN else if s < 0 then NegInf else PosInf)"

text \<open>\<^verbatim>\<open>a * b\<close>\<close>

definition num_mul :: "number \<Rightarrow> number \<Rightarrow> number" where
  "num_mul a b = (case (a, b) of
       (NaN, _) \<Rightarrow> NaN
     | (_, NaN) \<Rightarrow> NaN
     | (Fin x, Fin y) \<Rightarrow> fl (x * y)
     | _ \<Rightarrow> num_inf (num_sgn a * num_sgn b))"

text \<open>\<^verbatim>\<open>a - b\<close>\<close>

definition num_sub :: "number \<Rightarrow> number \<Rightarrow> number" where
  "num_sub a b = (case (a, b) of
       (NaN, _) \<Rightarrow> NaN
     | (_, NaN) \<Rightarrow> NaN
     | (Fin x, Fin y) \<Rightarrow> fl (x - y)
     | (PosInf, PosInf) \<Rightarrow> NaN
     | (NegInf, NegInf) \<Rightarrow> NaN
     | (PosInf, _) \<Rightarrow> PosInf
     | (NegInf, _) \<Rightarrow> NegInf
     | (_, PosInf) \<Rightarrow> NegInf
     | (_, NegInf) \<Rightarrow> PosInf)"

text \<open>\<^verbatim>\<open>a / b\<close>; a zero divisor is \<open>+0\<close>.\<close>

definition num_div :: "number \<Rightarrow> number \<Rightarrow> number" where
  "num_div a b = (case (a, b) of
       (NaN, _) \<Rightarrow> NaN
     | (_, NaN) \<Rightarrow> NaN
     | (Fin x, Fin y) \<Rightarrow> (if y = 0 then num_inf (num_sgn a) else fl (x / y))
     | (Fin x, _) \<Rightarrow> Fin 0
     | (_, Fin y) \<Rightarrow> num_inf (num_sgn a * (if y < 0 then - 1 else 1))
     | _ \<Rightarrow> NaN)"

text \<open>\<^verbatim>\<open>a <= b\<close>: false as soon as one side is \<^verbatim>\<open>NaN\<close>.\<close>

definition num_le :: "number \<Rightarrow> number \<Rightarrow> bool" where
  "num_le a b = (case (a, b) of
       (NaN, _) \<Rightarrow> False
     | (_, NaN) \<Rightarrow> False
     | (Fin x, Fin y) \<Rightarrow> x \<le> y
     | (NegInf, _) \<Rightarrow> True
     | (_, PosInf) \<Rightarrow> True
     | _ \<Rightarrow> False)"

text \<open>\<^verbatim>\<open>Math.floor\<close>\<close>

definition Math_floor :: "number \<Rightarrow> number" where
  "Math_floor n = (case n of Fin r \<Rightarrow> Fin (of_int \<lfloor>r\<rfloor>) | _ \<Rightarrow> n)"

subsection \<open>Digits\<close>

definition hexdigit :: "nat \<Rightarrow> char" where
  "hexdigit d = ''0123456789abcdef'' ! (d mod 16)"

function hex_of_nat :: "nat \<Rightarrow> string" where
  "hex_of_nat n = (if n < 16 then [hexdigit n] else hex_of_nat (n div 16) @ [hexdigit (n mod 16)])"
  by pat_completeness auto
termination
  by (relation "measure id") auto

function dec_of_nat :: "nat \<Rightarrow> string" where
  "dec_of_nat n = (if n < 10 then [hexdigit n] else dec_of_nat (n div 10) @ [hexdigit (n mod 10)])"
  by pat_completeness auto
termination
  by (relation "measure id") auto

declare hex_of_nat.simps [simp del] dec_of_nat.simps [simp del]

definition dec_of_int :: "int \<Rightarrow> string" where
  "dec_of_int i = (if i < 0 then CHR ''-'' # dec_of_nat (nat (- i)) else dec_of_nat (nat i))"

text \<open>The value of a digit in a radix up to 16, letters in either case.\<close>

definition digit_table :: "(char \<times> nat) list" where
  "digit_table =
     [(CHR ''0'', 0), (CHR ''1'', 1), (CHR ''2'', 2), (CHR ''3'', 3), (CHR ''4'', 4),
      (CHR ''5'', 5), (CHR ''6'', 6), (CHR ''7'', 7), (CHR ''8'', 8), (CHR ''9'', 9),
      (CHR ''a'', 10), (CHR ''b'', 11), (CHR ''c'', 12), (CHR ''d'', 13), (CHR ''e'', 14),
      (CHR ''f'', 15),
      (CHR ''A'', 10), (CHR ''B'', 11), (CHR ''C'', 12), (CHR ''D'', 13), (CHR ''E'', 14),
      (CHR ''F'', 15)]"

definition digit_val :: "nat \<Rightarrow> char \<Rightarrow> nat option" where
  "digit_val radix c =
     (case map_of digit_table c of
        None \<Rightarrow> None
      | Some d \<Rightarrow> (if d < radix then Some d else None))"

definition is_digit :: "nat \<Rightarrow> char \<Rightarrow> bool" where
  "is_digit radix c = (digit_val radix c \<noteq> None)"

definition nat_of_digits :: "nat \<Rightarrow> string \<Rightarrow> nat" where
  "nat_of_digits radix ds = foldl (\<lambda>acc c. acc * radix + (case digit_val radix c of Some d \<Rightarrow> d | None \<Rightarrow> 0)) 0 ds"

text \<open>The ASCII white space that \<^verbatim>\<open>parseFloat\<close>, \<^verbatim>\<open>parseInt\<close> and \<^verbatim>\<open>BigInt\<close> skip.\<close>

definition is_space :: "char \<Rightarrow> bool" where
  "is_space c = (c \<in> set [CHR '' '', CHR 0x09, CHR 0x0A, CHR 0x0B, CHR 0x0C, CHR 0x0D])"

subsection \<open>\<^verbatim>\<open>Number.prototype.toString(16)\<close>\<close>

text \<open>
  The hexadecimal digits after the point, exactly (a double has at most 1074 binary
  places). ECMAScript leaves the digits of a non-integer in a radix other than ten to the
  implementation; the gateway only converts the result of \<^verbatim>\<open>Math.floor\<close> and the
  domains of its table, which are integers.
\<close>

fun frac16 :: "nat \<Rightarrow> rat \<Rightarrow> string" where
  "frac16 0 r = []"
| "frac16 (Suc k) r =
     (if r = 0 then []
      else (let d = \<lfloor>r * 16\<rfloor> in hexdigit (nat d) # frac16 k (r * 16 - of_int d)))"

definition mag16 :: "rat \<Rightarrow> string" where
  "mag16 r = (let i = \<lfloor>r\<rfloor>; f = r - of_int i in
     hex_of_nat (nat i) @ (if f = 0 then [] else CHR ''.'' # frac16 269 f))"

definition number_toString16 :: "number \<Rightarrow> string" where
  "number_toString16 n = (case n of
       NaN \<Rightarrow> ''NaN''
     | PosInf \<Rightarrow> ''Infinity''
     | NegInf \<Rightarrow> ''-Infinity''
     | Fin r \<Rightarrow> (if r < 0 then CHR ''-'' # mag16 (- r) else mag16 r))"

subsection \<open>\<^verbatim>\<open>parseFloat\<close>\<close>

text \<open>
  \<^verbatim>\<open>parseFloat\<close> skips leading white space and reads the longest prefix that is a
  decimal literal: a sign, then \<^verbatim>\<open>Infinity\<close> or digits with an optional fraction and an
  optional exponent. \<open>decimal_prefix\<close> gives the exact value read (\<open>None\<close> when there
  is no literal, \<open>Some None\<close> for an infinity).
\<close>

definition exponent_part :: "string \<Rightarrow> int" where
  "exponent_part s = (case s of
       [] \<Rightarrow> 0
     | c # t \<Rightarrow>
         (if c = CHR ''e'' \<or> c = CHR ''E'' then
            (case t of
               [] \<Rightarrow> 0
             | d # u \<Rightarrow>
                 (if d = CHR ''-'' then - int (nat_of_digits 10 (takeWhile (is_digit 10) u))
                  else if d = CHR ''+'' then int (nat_of_digits 10 (takeWhile (is_digit 10) u))
                  else int (nat_of_digits 10 (takeWhile (is_digit 10) t))))
          else 0))"

definition pow10 :: "int \<Rightarrow> rat" where
  "pow10 k = (if 0 \<le> k then 10 ^ nat k else 1 / 10 ^ nat (- k))"

definition unsigned_prefix :: "string \<Rightarrow> rat option option" where
  "unsigned_prefix s =
     (if take 8 s = ''Infinity'' then Some None
      else (let ip = takeWhile (is_digit 10) s;
                r1 = dropWhile (is_digit 10) s;
                fp = (case r1 of [] \<Rightarrow> [] | c # t \<Rightarrow> (if c = CHR ''.'' then takeWhile (is_digit 10) t else []));
                r2 = (case r1 of [] \<Rightarrow> [] | c # t \<Rightarrow> (if c = CHR ''.'' then dropWhile (is_digit 10) t else r1))
            in if ip = [] \<and> fp = [] then None
               else Some (Some (of_nat (nat_of_digits 10 (ip @ fp))
                                * pow10 (exponent_part r2 - int (length fp))))))"

definition decimal_prefix :: "string \<Rightarrow> (bool \<times> rat option) option" where
  "decimal_prefix s = (let t = dropWhile is_space s in
     (case t of
        [] \<Rightarrow> None
      | c # u \<Rightarrow>
          (if c = CHR ''-'' then map_option (Pair True) (unsigned_prefix u)
           else if c = CHR ''+'' then map_option (Pair False) (unsigned_prefix u)
           else map_option (Pair False) (unsigned_prefix t))))"

definition parseFloat :: "string \<Rightarrow> number" where
  "parseFloat s = (case decimal_prefix s of
       None \<Rightarrow> NaN
     | Some (negative, None) \<Rightarrow> (if negative then NegInf else PosInf)
     | Some (negative, Some v) \<Rightarrow> fl (if negative then - v else v))"

text \<open>The exact value of the literal that \<^verbatim>\<open>parseFloat\<close> reads, when it is finite.\<close>

definition amount_value :: "string \<Rightarrow> rat option" where
  "amount_value s = (case decimal_prefix s of
       Some (negative, Some v) \<Rightarrow> Some (if negative then - v else v)
     | _ \<Rightarrow> None)"

subsection \<open>Strings\<close>

text \<open>\<^verbatim>\<open>s.padStart(n, '0')\<close>\<close>

definition padStart :: "string \<Rightarrow> nat \<Rightarrow> string" where
  "padStart s n = replicate (n - length s) CHR ''0'' @ s"

text \<open>\<^verbatim>\<open>v.slice(2)\<close>: only a string has the method.\<close>

definition js_slice2 :: "jsval \<Rightarrow> js_error + string" where
  "js_slice2 v = (case v of
       JStr s \<Rightarrow> Inr (drop 2 s)
     | JNum n \<Rightarrow> Inl (TypeError ''slice is not a function'')
     | JUndefined \<Rightarrow> Inl (TypeError ''Cannot read properties of undefined (reading slice)''))"

text \<open>\<^verbatim>\<open>v.toString(16)\<close>: a string ignores the radix.\<close>

definition js_toString16 :: "jsval \<Rightarrow> js_error + string" where
  "js_toString16 v = (case v of
       JNum n \<Rightarrow> Inr (number_toString16 n)
     | JStr s \<Rightarrow> Inr s
     | JUndefined \<Rightarrow> Inl (TypeError ''Cannot read properties of undefined (reading toString)''))"

text \<open>
  \<^verbatim>\<open>v.length\<close> as the subtraction reads it (converted to a number): the length of a
  string; \<^verbatim>\<open>NaN\<close> for a number, whose \<^verbatim>\<open>length\<close> is \<^verbatim>\<open>undefined\<close>.
\<close>

definition js_length :: "jsval \<Rightarrow> js_error + number" where
  "js_length v = (case v of
       JStr s \<Rightarrow> Inr (Fin (of_nat (length s)))
     | JNum n \<Rightarrow> Inr NaN
     | JUndefined \<Rightarrow> Inl (TypeError ''Cannot read properties of undefined (reading length)''))"

section \<open>Helper functions for Web3 interactions\<close>

text \<open>\<^verbatim>\<open>const toHex = (num) => '0x' + num.toString(16);\<close>\<close>

definition toHex :: "number \<Rightarrow> string" where
  "toHex num = ''0x'' @ number_toString16 num"

text \<open>
  \<^verbatim>\<open>const padHex = (hex, length) => hex.padStart(length, '0');\<close>
  Only a string has \<^verbatim>\<open>padStart\<close>; on a number the call throws.
\<close>

definition padHex :: "jsval \<Rightarrow> nat \<Rightarrow> js_error + string" where
  "padHex hex n = (case hex of
       JStr s \<Rightarrow> Inr (padStart s n)
     | JNum x \<Rightarrow> Inl (TypeError ''hex.padStart is not a function'')
     | JUndefined \<Rightarrow> Inl (TypeError ''Cannot read properties of undefined (reading padStart)''))"

text \<open>\<^verbatim>\<open>const addressToBytes32 = (address) => '0x000000000000000000000000' + address.slice(2);\<close>\<close>

definition addressToBytes32 :: "string \<Rightarrow> string" where
  "addressToBytes32 address = ''0x000000000000000000000000'' @ drop 2 address"

section \<open>Simple ABI encoding for function calls\<close>

definition functionSignatures :: "(string \<times> string) list" where
  "functionSignatures =
     [(''approve'', ''0x095ea7b3''),
      (''balanceOf'', ''0x70a08231''),
      (''decimals'', ''0x313ce567''),
      (''depositForBurnWithCaller'', ''0x8c7af8a5''),
      (''depositForBurnWithHook'', ''0x1f9014c5'')]"

text \<open>The names a plain object inherits from \<^verbatim>\<open>Object.prototype\<close>.\<close>

definition object_prototype_members :: "string list" where
  "object_prototype_members =
     [''constructor'', ''hasOwnProperty'', ''isPrototypeOf'', ''propertyIsEnumerable'',
      ''toLocaleString'', ''toString'', ''valueOf'', ''__proto__'',
      ''__defineGetter__'', ''__defineSetter__'', ''__lookupGetter__'', ''__lookupSetter__'']"

text \<open>\<^verbatim>\<open>functionSignatures[functionName]\<close>\<close>

definition signature_of :: "string \<Rightarrow> payload" where
  "signature_of functionName = (case map_of functionSignatures functionName of
       Some sig \<Rightarrow> Str sig
     | None \<Rightarrow> (if functionName \<in> set object_prototype_members then Member functionName
                 else Undefined))"

text \<open>\<^verbatim>\<open>params.k\<close>: in an object literal the last entry of a key counts.\<close>

definition getProp :: "(string \<times> jsval) list \<Rightarrow> string \<Rightarrow> jsval" where
  "getProp params k = (case map_of (rev params) k of None \<Rightarrow> JUndefined | Some v \<Rightarrow> v)"

text \<open>\<^verbatim>\<open>data += s\<close>\<close>

definition js_plus :: "payload \<Rightarrow> string \<Rightarrow> payload" where
  "js_plus data s = (case data of
       Str d \<Rightarrow> Str (d @ s)
     | Undefined \<Rightarrow> Str (''undefined'' @ s)
     | Member m \<Rightarrow> Str ((if m = ''__proto__'' then ''[object Object]''
                          else ''function '' @ m @ ''() { [native code] }'') @ s))"

text \<open>
  A run of statements \<^verbatim>\<open>data += e\<^sub>1; data += e\<^sub>2; ...\<close>: the right-hand sides are
  evaluated in order and the first one that throws ends the call.
\<close>

fun append_all :: "payload \<Rightarrow> (js_error + string) list \<Rightarrow> js_error + payload" where
  "append_all data [] = Inr data"
| "append_all data (Inl e # rest) = Inl e"
| "append_all data (Inr s # rest) = append_all (js_plus data s) rest"

text \<open>\<^verbatim>\<open>padHex(e, 64)\<close> for an expression \<open>e\<close> that yields a string or throws.\<close>

definition padded :: "js_error + string \<Rightarrow> js_error + string" where
  "padded r = (case r of Inl e \<Rightarrow> Inl e | Inr s \<Rightarrow> padHex (JStr s) 64)"

text \<open>\<^verbatim>\<open>padHex((params.hookData.length - 2) / 2, 64)\<close>\<close>

definition hook_length_word :: "jsval \<Rightarrow> js_error + string" where
  "hook_length_word hookData = (case js_length hookData of
       Inl e \<Rightarrow> Inl e
     | Inr len \<Rightarrow> padHex (JNum (num_div (num_sub len (Fin 2)) (Fin 2))) 64)"

definition encodeFunctionCall :: "string \<Rightarrow> (string \<times> jsval) list \<Rightarrow> js_error + payload" where
  "encodeFunctionCall functionName params =
     (let data = signature_of functionName in
      if functionName = ''approve'' then
        append_all data
          [padded (js_slice2 (getProp params ''spender'')),
           padded (js_toString16 (getProp params ''amount''))]
      else if functionName = ''balanceOf'' then
        append_all data
          [padded (js_slice2 (getProp params ''account''))]
      else if functionName = ''depositForBurnWithCaller'' then
        append_all data
          [padded (js_toString16 (getProp params ''amount'')),
           padded (js_toString16 (getProp params ''destinationDomain'')),
           js_slice2 (getProp params ''mintRecipient''),
           padded (js_slice2 (getProp params ''burnToken'')),
           js_slice2 (getProp params ''destinationCaller'')]
      else if functionName = ''depositForBurnWithHook'' then
        append_all data
          [padded (js_toString16 (getProp params ''amount'')),
           padded (js_toString16 (getProp params ''destinationDomain'')),
           js_slice2 (getProp params ''mintRecipient''),
           padded (js_slice2 (getProp params ''burnToken'')),
           padHex (JStr ''80'') 64,
           hook_length_word (getProp params ''hookData''),
           js_slice2 (getProp params ''hookData'')]
      else Inr data)"

text \<open>
  \<^verbatim>\<open>const parseHexResponse = (hex) => { if (!hex || hex === '0x') return '0';
  return BigInt(hex).toString(); };\<close>
  \<^verbatim>\<open>BigInt\<close> of a string trims white space, reads the empty string as zero, a
  \<^verbatim>\<open>0x\<close>, \<^verbatim>\<open>0o\<close> or \<^verbatim>\<open>0b\<close> literal in its radix and otherwise a signed
  decimal literal; anything else is a \<^verbatim>\<open>SyntaxError\<close>.
\<close>

definition trim :: "string \<Rightarrow> string" where
  "trim s = rev (dropWhile is_space (rev (dropWhile is_space s)))"

definition digits_value :: "nat \<Rightarrow> string \<Rightarrow> int option" where
  "digits_value radix ds =
     (if ds \<noteq> [] \<and> list_all (is_digit radix) ds then Some (int (nat_of_digits radix ds)) else None)"

definition bigint_of_string :: "string \<Rightarrow> int option" where
  "bigint_of_string s = (let t = trim s in
     if t = [] then Some 0
     else if take 2 t = ''0x'' \<or> take 2 t = ''0X'' then digits_value 16 (drop 2 t)
     else if take 2 t = ''0o'' \<or> take 2 t = ''0O'' then digits_value 8 (drop 2 t)
     else if take 2 t = ''0b'' \<or> take 2 t = ''0B'' then digits_value 2 (drop 2 t)
     else if take 1 t = ''-'' then map_option uminus (digits_value 10 (drop 1 t))
     else if take 1 t = ''+'' then digits_value 10 (drop 1 t)
     else digits_value 10 t)"

definition parseHexResponse :: "string \<Rightarrow> js_error + string" where
  "parseHexResponse hex =
     (if hex = [] \<or> hex = ''0x'' then Inr ''0''
      else (case bigint_of_string hex of
              None \<Rightarrow> Inl (SyntaxError (''Cannot convert '' @ hex @ '' to a BigInt''))
            | Some n \<Rightarrow> Inr (dec_of_int n)))"

text \<open>
  \<^verbatim>\<open>const fromHex = (hex) => parseInt(hex, 16);\<close>
  \<open>None\<close> is \<^verbatim>\<open>NaN\<close>. The integer read is kept exact; beyond \<open>2\<^sup>5\<^sup>3\<close> JavaScript
  rounds it to a double, which no comparison with a key of the chain table observes.
\<close>

definition fromHex :: "string \<Rightarrow> int option" where
  "fromHex hex = (let t = dropWhile is_space hex;
                      negative = (take 1 t = ''-'');
                      u = (if take 1 t = ''-'' \<or> take 1 t = ''+'' then drop 1 t else t);
                      v = (if take 2 u = ''0x'' \<or> take 2 u = ''0X'' then drop 2 u else u);
                      ds = takeWhile (is_digit 16) v
                  in if ds = [] then None
                     else Some (if negative then - int (nat_of_digits 16 ds) else int (nat_of_digits 16 ds)))"

section \<open>Chain configurations and hook templates\<close>

text \<open>The \<^verbatim>\<open>icon\<close> and \<^verbatim>\<open>color\<close> of an entry only style the page and are left out.\<close>

record chain_config =
  name :: string
  domain :: nat
  chainIdHex :: string
  messageTransmitter :: string
  tokenMessenger :: string
  usdc :: string
  explorer :: string

definition CHAIN_CONFIG :: "(nat \<times> chain_config) list" where
  "CHAIN_CONFIG =
     [(1, \<lparr>name = ''Ethereum'', domain = 0, chainIdHex = ''0x1'',
           messageTransmitter = ''0x0a992d191DEeC32aFe36203Ad87D7d289a738F81'',
           tokenMessenger = ''0xBd3fa81B58Ba92a82136038B25aDec7066af3155'',
           usdc = ''0xA0b86991c6218b36c1d19D4a2e9Eb0cE3606eB48'',
           explorer = ''https://etherscan.io''\<rparr>),
      (42161, \<lparr>name = ''Arbitrum'', domain = 3, chainIdHex = ''0xa4b1'',
           messageTransmitter = ''0xC30362313FBBA5cf9163F0bb16a0e01f01A896ca'',
           tokenMessenger = ''0x19330d10D9Cc8751218eaf51E8885D058642E08A'',
           usdc = ''0xaf88d065e77c8cC2239327C5EDb3A432268e5831'',
           explorer = ''https://arbiscan.io''\<rparr>),
      (8453, \<lparr>name = ''Base'', domain = 6, chainIdHex = ''0x2105'',
           messageTransmitter = ''0x1a58c91AAf06468eB4921Dd7b5B8293F2E20c03b'',
           tokenMessenger = ''0xd203De32170130082896b4111eDF825a4774c18E'',
           usdc = ''0x833589fCD6eDb6E08f4c7C32D4f71b54bdA02913'',
           explorer = ''https://basescan.org''\<rparr>),
      (43114, \<lparr>name = ''Avalanche'', domain = 1, chainIdHex = ''0xa86a'',
           messageTransmitter = ''0x8186359aF5F57FbB40c6b14A588d2A59C0C29880'',
           tokenMessenger = ''0x6B25532e1060CE10cc3B0A99e5683b91BFDe6982'',
           usdc = ''0xB97EF9Ef8734C71904D8002F8b6Bc66Dd9c48a6E'',
           explorer = ''https://snowtrace.io''\<rparr>),
      (59144, \<lparr>name = ''Linea'', domain = 9, chainIdHex = ''0xe708'',
           messageTransmitter = ''0x4D41f22c5a0e5c74090899E5a8Fb597a8842b3e8'',
           tokenMessenger = ''0xb1141bF80C0B5676c8a6e9f9c8F4dC4c8Fb8f7d0'',
           usdc = ''0x176211869cA2b568f2A7D4EE941E073a821EE1ff'',
           explorer = ''https://lineascan.build''\<rparr>),
      (146, \<lparr>name = ''Sonic'', domain = 10, chainIdHex = ''0x92'',
           messageTransmitter = ''0x1234567890abcdef1234567890abcdef12345678'',
           tokenMessenger = ''0xabcdef1234567890abcdef1234567890abcdef12'',
           usdc = ''0x29219dD400f2Bf60E5a23d13Be72B486D4038894'',
           explorer = ''https://sonicscan.io''\<rparr>)]"

text \<open>\<^verbatim>\<open>Object.keys(CHAIN_CONFIG)\<close>: integer keys come in ascending order.\<close>

definition chain_keys :: "nat list" where
  "chain_keys = sort (map fst CHAIN_CONFIG)"

text \<open>
  \<^verbatim>\<open>CHAIN_CONFIG[n]\<close> for a number \<open>n\<close> (\<open>None\<close> is \<^verbatim>\<open>NaN\<close>): the key of the
  entry when there is one.
\<close>

definition registered :: "int option \<Rightarrow> nat option" where
  "registered n = (case n of
       None \<Rightarrow> None
     | Some i \<Rightarrow> (if 0 \<le> i \<and> map_of CHAIN_CONFIG (nat i) \<noteq> None then Some (nat i) else None))"

text \<open>
  The page stores in \<^verbatim>\<open>selectedHook\<close> a key of \<^verbatim>\<open>HOOK_TEMPLATES\<close> or
  \<^verbatim>\<open>null\<close>, nothing else.
\<close>

datatype hook_key = autoSwap | autoDeposit | autoStake | treasuryRebalance

record hook_template =
  hook_name :: string
  description :: string
  hookData :: string

definition HOOK_TEMPLATES :: "hook_key \<Rightarrow> hook_template" where
  "HOOK_TEMPLATES k = (case k of
       autoSwap \<Rightarrow> \<lparr>hook_name = ''Auto Swap to Native Token'',
                     description = ''Automatically swap received USDC to native token'',
                     hookData = ''0x01''\<rparr>
     | autoDeposit \<Rightarrow> \<lparr>hook_name = ''Auto Deposit to DeFi'',
                        description = ''Deposit received USDC into lending protocol'',
                        hookData = ''0x02''\<rparr>
     | autoStake \<Rightarrow> \<lparr>hook_name = ''Auto Stake for Rewards'',
                      description = ''Stake USDC for yield generation'',
                      hookData = ''0x03''\<rparr>
     | treasuryRebalance \<Rightarrow> \<lparr>hook_name = ''Treasury Auto-Rebalance'',
                              description = ''Automatically rebalance to preferred chain'',
                              hookData = ''0x04''\<rparr>)"

section \<open>The component: state, wallet and effects\<close>

datatype status_kind = Pending | Success | Error

record tx_details =
  from_chain :: string
  to_chain :: string
  amount_text :: string
  recipient :: string
  txHash :: string
  estimatedTime :: string
  hook :: string

record tx_status =
  status :: status_kind
  message :: string
  details :: "tx_details option"

text \<open>
  The React state that the payment flow reads or writes (\<^verbatim>\<open>showAdvanced\<close> and
  \<^verbatim>\<open>treasurySettings\<close> only drive the page). \<^verbatim>\<open>balances\<close> is an object keyed by
  chain id.
\<close>

record app_state =
  account :: "string option"
  sourceChain :: nat
  destinationChain :: nat
  amount :: string
  merchantAddress :: string
  selectedHook :: "hook_key option"
  isProcessing :: bool
  transactionStatus :: "tx_status option"
  balances :: "(nat \<times> string) list"
  fastTransferEnabled :: bool

datatype rpc_request =
    Eth_chainId
  | Eth_call string payload
  | Eth_sendTransaction string string payload
  | Eth_getTransactionReceipt string
  | Wallet_switchEthereumChain string

text \<open>The callbacks the flow hands to \<^verbatim>\<open>setTimeout\<close> without waiting for them.\<close>

datatype deferred = AttestationReceived | RefreshBalances string

text \<open>
  What the component does to the outside, in order: a request to
  \<^verbatim>\<open>window.ethereum\<close>, an \<^verbatim>\<open>alert\<close>, a \<^verbatim>\<open>console.error\<close>, a wait of so many
  milliseconds, a callback scheduled after so many milliseconds.
\<close>

datatype event =
    Request rpc_request
  | Alert string
  | ConsoleError string js_error
  | Sleep nat
  | SetTimeout nat deferred

record receipt =
  transactionHash :: string
  receipt_status :: string

text \<open>
  The wallet is an external collaborator: the answer to a request is a function of what
  the component has done so far and of the request, \<open>Inl\<close> when the promise rejects.
  The results have the types of the JSON-RPC methods. \<open>displayBalance\<close> is the
  engine's \<^verbatim>\<open>(parseFloat(balance) / Math.pow(10, parseInt(decimals))).toFixed(2)\<close>, which
  never throws; ECMAScript leaves \<^verbatim>\<open>Math.pow\<close> to the implementation.
\<close>

record runtime =
  eth_chainId :: "event list \<Rightarrow> js_error + string"
  eth_call :: "event list \<Rightarrow> string \<Rightarrow> payload \<Rightarrow> js_error + string"
  eth_sendTransaction :: "event list \<Rightarrow> string \<Rightarrow> string \<Rightarrow> payload \<Rightarrow> js_error + string"
  eth_getTransactionReceipt :: "event list \<Rightarrow> string \<Rightarrow> js_error + receipt option"
  wallet_switchEthereumChain :: "event list \<Rightarrow> string \<Rightarrow> js_error + unit"
  displayBalance :: "string \<Rightarrow> string \<Rightarrow> string"

record world =
  ui :: app_state
  events :: "event list"

type_synonym 'a io = "world \<Rightarrow> (js_error + 'a) \<times> world"

definition ret :: "'a \<Rightarrow> 'a io" where
  "ret x w = (Inr x, w)"

definition lift :: "js_error + 'a \<Rightarrow> 'a io" where
  "lift r w = (r, w)"

text \<open>Sequencing: a step that throws ends the sequence.\<close>

definition seq :: "'a io \<Rightarrow> ('a \<Rightarrow> 'b io) \<Rightarrow> 'b io" where
  "seq m f w = (case m w of (Inl e, w') \<Rightarrow> (Inl e, w') | (Inr x, w') \<Rightarrow> f x w')"

text \<open>\<^verbatim>\<open>try { m } catch (error) { h }\<close>\<close>

definition catch :: "'a io \<Rightarrow> (js_error \<Rightarrow> 'a io) \<Rightarrow> 'a io" where
  "catch m h w = (case m w of (Inl e, w') \<Rightarrow> h e w' | (Inr x, w') \<Rightarrow> (Inr x, w'))"

definition emit :: "event \<Rightarrow> unit io" where
  "emit ev w = (Inr (), w\<lparr>events := events w @ [ev]\<rparr>)"

definition update_ui :: "(app_state \<Rightarrow> app_state) \<Rightarrow> unit io" where
  "update_ui f w = (Inr (), w\<lparr>ui := f (ui w)\<rparr>)"

text \<open>\<^verbatim>\<open>await window.ethereum.request({ method, params })\<close>, one definition per method.\<close>

definition request_chainId :: "runtime \<Rightarrow> string io" where
  "request_chainId R w = (eth_chainId R (events w), w\<lparr>events := events w @ [Request Eth_chainId]\<rparr>)"

definition request_call :: "runtime \<Rightarrow> string \<Rightarrow> payload \<Rightarrow> string io" where
  "request_call R to_addr data w =
     (eth_call R (events w) to_addr data, w\<lparr>events := events w @ [Request (Eth_call to_addr data)]\<rparr>)"

definition request_send :: "runtime \<Rightarrow> string \<Rightarrow> string \<Rightarrow> payload \<Rightarrow> string io" where
  "request_send R from_addr to_addr data w =
     (eth_sendTransaction R (events w) from_addr to_addr data,
      w\<lparr>events := events w @ [Request (Eth_sendTransaction from_addr to_addr data)]\<rparr>)"

definition request_receipt :: "runtime \<Rightarrow> string \<Rightarrow> receipt option io" where
  "request_receipt R tx w =
     (eth_getTransactionReceipt R (events w) tx,
      w\<lparr>events := events w @ [Request (Eth_getTransactionReceipt tx)]\<rparr>)"

definition request_switch :: "runtime \<Rightarrow> string \<Rightarrow> unit io" where
  "request_switch R chain w =
     (wallet_switchEthereumChain R (events w) chain,
      w\<lparr>events := events w @ [Request (Wallet_switchEthereumChain chain)]\<rparr>)"

text \<open>\<^verbatim>\<open>config.field\<close> for a \<^verbatim>\<open>config\<close> that may be \<^verbatim>\<open>undefined\<close>.\<close>

definition read_config :: "chain_config option \<Rightarrow> (chain_config \<Rightarrow> 'a) \<Rightarrow> string \<Rightarrow> js_error + 'a" where
  "read_config config field fname = (case config of
       None \<Rightarrow> Inl (TypeError (''Cannot read properties of undefined (reading '' @ fname @ '')''))
     | Some cfg \<Rightarrow> Inr (field cfg))"

section \<open>Balances\<close>

text \<open>
  \<^verbatim>\<open>getUSDCBalance\<close>: the body of its \<^verbatim>\<open>try\<close>, then the function with its
  \<^verbatim>\<open>catch\<close>, which logs the error and returns \<^verbatim>\<open>'0'\<close>.
\<close>

definition getUSDCBalance_try :: "runtime \<Rightarrow> string \<Rightarrow> nat \<Rightarrow> string io" where
  "getUSDCBalance_try R address chainId =
     (let config = map_of CHAIN_CONFIG chainId in
      seq (lift (encodeFunctionCall ''balanceOf'' [(''account'', JStr address)])) (\<lambda>balanceData.
      seq (lift (read_config config usdc ''usdc'')) (\<lambda>token.
      seq (request_call R token balanceData) (\<lambda>balanceResult.
      seq (lift (encodeFunctionCall ''decimals'' [])) (\<lambda>decimalsData.
      seq (lift (read_config config usdc ''usdc'')) (\<lambda>token2.
      seq (request_call R token2 decimalsData) (\<lambda>decimalsResult.
      seq (lift (parseHexResponse balanceResult)) (\<lambda>balance.
      seq (lift (parseHexResponse decimalsResult)) (\<lambda>decimalsText.
      ret (displayBalance R balance decimalsText))))))))))"

definition getUSDCBalance :: "runtime \<Rightarrow> string \<Rightarrow> nat \<Rightarrow> string io" where
  "getUSDCBalance R address chainId =
     catch (getUSDCBalance_try R address chainId)
       (\<lambda>e. seq (emit (ConsoleError (''Error fetching balance for chain '' @ dec_of_nat chainId @ '':'') e))
                 (\<lambda>u. ret ''0''))"

text \<open>\<^verbatim>\<open>balances[chainId] || '0'\<close>, on the \<^verbatim>\<open>balances\<close> the closure captured.\<close>

definition cached :: "app_state \<Rightarrow> nat \<Rightarrow> string" where
  "cached c chainId = (case map_of (balances c) chainId of
       None \<Rightarrow> ''0''
     | Some b \<Rightarrow> (if b = [] then ''0'' else b))"

text \<open>
  \<^verbatim>\<open>updateBalances\<close>: \<open>c\<close> is the state the closure captured. A rejected
  \<^verbatim>\<open>eth_chainId\<close> is not caught here.
\<close>

definition updateBalances :: "runtime \<Rightarrow> app_state \<Rightarrow> string \<Rightarrow> unit io" where
  "updateBalances R c address =
     seq (request_chainId R) (\<lambda>currentChainId.
     (let currentChainIdDec = fromHex currentChainId in
      seq (case registered currentChainIdDec of
             None \<Rightarrow> ret []
           | Some k \<Rightarrow> seq (getUSDCBalance R address k) (\<lambda>b. ret [(k, b)])) (\<lambda>live.
      update_ui (\<lambda>s. s\<lparr>balances :=
        foldl (\<lambda>newBalances chainId.
                 if Some (int chainId) \<noteq> currentChainIdDec
                 then AList.update chainId (cached c chainId) newBalances
                 else newBalances) live chain_keys\<rparr>))))"

text \<open>\<^verbatim>\<open>switchNetwork\<close>: every error of its \<^verbatim>\<open>try\<close> ends in its own \<^verbatim>\<open>catch\<close>.\<close>

definition switchNetwork :: "runtime \<Rightarrow> app_state \<Rightarrow> nat \<Rightarrow> unit io" where
  "switchNetwork R c chainId =
     catch
       (seq (lift (read_config (map_of CHAIN_CONFIG chainId) chainIdHex ''chainIdHex'')) (\<lambda>chain.
        seq (request_switch R chain) (\<lambda>u.
        (case account c of
           None \<Rightarrow> ret ()
         | Some a \<Rightarrow>
             (if a = [] then ret ()
              else seq (getUSDCBalance R a chainId) (\<lambda>balance.
                   update_ui (\<lambda>prev. prev\<lparr>balances := AList.update chainId balance (balances prev)\<rparr>)))))))
       (\<lambda>e. seq (if error_code e = Some 4902 then emit (Alert ''Please add this network to MetaMask'')
                  else ret ())
                 (\<lambda>u. emit (ConsoleError ''Error switching network:'' e)))"

text \<open>
  The listener for \<^verbatim>\<open>chainChanged\<close>:
  \<^verbatim>\<open>window.ethereum.on('chainChanged', () => { if (account) { updateBalances(account); } });\<close>
  An effect with the dependencies \<^verbatim>\<open>[account]\<close> registers it, so \<open>c\<close> is the state of the
  render in which the account last changed, whatever the page shows when the wallet
  changes chain.
\<close>

definition chainChanged_listener :: "runtime \<Rightarrow> app_state \<Rightarrow> unit io" where
  "chainChanged_listener R c = (case account c of
       None \<Rightarrow> ret ()
     | Some a \<Rightarrow> (if a = [] then ret () else updateBalances R c a))"

section \<open>Process payment with CCTP V2\<close>

text \<open>\<^verbatim>\<open>const amountInUnits = Math.floor(parseFloat(amount) * 1e6);\<close>\<close>

definition amountInUnits :: "string \<Rightarrow> number" where
  "amountInUnits a = Math_floor (num_mul (parseFloat a) (Fin 1000000))"

text \<open>
  The wait for a receipt:
  \<^verbatim>\<open>do { await new Promise(resolve => setTimeout(resolve, 2000));
       receipt = await window.ethereum.request({ method: 'eth_getTransactionReceipt', params: [tx] });
  } while (!receipt);\<close>
  The loop has no other exit, so the wait is a partial function: \<open>None\<close> when it never
  returns.
\<close>

partial_function (option) waitForReceipt :: "runtime \<Rightarrow> string \<Rightarrow> world \<Rightarrow> ((js_error + unit) \<times> world) option" where
  "waitForReceipt R tx w =
     (case seq (emit (Sleep 2000)) (\<lambda>u. request_receipt R tx) w of
        (Inl e, w') \<Rightarrow> Some (Inl e, w')
      | (Inr None, w') \<Rightarrow> waitForReceipt R tx w'
      | (Inr (Some r), w') \<Rightarrow> Some (Inr (), w'))"

declare waitForReceipt.simps [code]

definition pending :: "string \<Rightarrow> tx_status" where
  "pending m = \<lparr>status = Pending, message = m, details = None\<rparr>"

definition and_then :: "js_error + 'a \<Rightarrow> ('a \<Rightarrow> js_error + 'b) \<Rightarrow> js_error + 'b" where
  "and_then r f = (case r of Inl e \<Rightarrow> Inl e | Inr x \<Rightarrow> f x)"

text \<open>Step 1: switch to the source chain and submit the approval.\<close>

definition approval_submit :: "runtime \<Rightarrow> app_state \<Rightarrow> string \<Rightarrow> string io" where
  "approval_submit R c from_addr =
     (let sourceConfig = map_of CHAIN_CONFIG (sourceChain c) in
      seq (switchNetwork R c (sourceChain c)) (\<lambda>u.
      seq (update_ui (\<lambda>s. s\<lparr>transactionStatus := Some (pending ''Approving USDC...'')\<rparr>)) (\<lambda>u.
      seq (lift (read_config sourceConfig tokenMessenger ''tokenMessenger'')) (\<lambda>spender.
      seq (lift (encodeFunctionCall ''approve''
                   [(''spender'', JStr spender), (''amount'', JNum (amountInUnits (amount c)))])) (\<lambda>approveData.
      seq (lift (read_config sourceConfig usdc ''usdc'')) (\<lambda>token.
      request_send R from_addr token approveData))))))"

text \<open>The two encodings of the burn; the fields of each object literal are read in order.\<close>

definition hook_calldata :: "app_state \<Rightarrow> hook_key \<Rightarrow> js_error + payload" where
  "hook_calldata c h =
     and_then (read_config (map_of CHAIN_CONFIG (destinationChain c)) domain ''domain'') (\<lambda>dom.
     and_then (read_config (map_of CHAIN_CONFIG (sourceChain c)) usdc ''usdc'') (\<lambda>token.
     encodeFunctionCall ''depositForBurnWithHook''
       [(''amount'', JNum (amountInUnits (amount c))),
        (''destinationDomain'', JNum (Fin (of_nat dom))),
        (''mintRecipient'', JStr (addressToBytes32 (merchantAddress c))),
        (''burnToken'', JStr token),
        (''hookData'', JStr (hookData (HOOK_TEMPLATES h)))]))"

definition caller_calldata :: "app_state \<Rightarrow> js_error + payload" where
  "caller_calldata c =
     (let destinationCaller = addressToBytes32 ''0x0000000000000000000000000000000000000000'' in
      and_then (read_config (map_of CHAIN_CONFIG (destinationChain c)) domain ''domain'') (\<lambda>dom.
      and_then (read_config (map_of CHAIN_CONFIG (sourceChain c)) usdc ''usdc'') (\<lambda>token.
      encodeFunctionCall ''depositForBurnWithCaller''
        [(''amount'', JNum (amountInUnits (amount c))),
         (''destinationDomain'', JNum (Fin (of_nat dom))),
         (''mintRecipient'', JStr (addressToBytes32 (merchantAddress c))),
         (''burnToken'', JStr token),
         (''destinationCaller'', JStr destinationCaller)])))"

text \<open>\<^verbatim>\<open>if (selectedHook && fastTransferEnabled) { ... } else { ... }\<close>\<close>

definition burn_calldata :: "app_state \<Rightarrow> js_error + payload" where
  "burn_calldata c = (case selectedHook c of
       Some h \<Rightarrow> (if fastTransferEnabled c then hook_calldata c h else caller_calldata c)
     | None \<Rightarrow> caller_calldata c)"

text \<open>Step 2: submit the burn.\<close>

definition burn_submit :: "runtime \<Rightarrow> app_state \<Rightarrow> string \<Rightarrow> string io" where
  "burn_submit R c from_addr =
     seq (update_ui (\<lambda>s. s\<lparr>transactionStatus := Some (pending
            (if fastTransferEnabled c then ''Initiating Fast Transfer...''
             else ''Initiating Standard Transfer...''))\<rparr>)) (\<lambda>u.
     seq (lift (burn_calldata c)) (\<lambda>burnData.
     seq (lift (read_config (map_of CHAIN_CONFIG (sourceChain c)) tokenMessenger ''tokenMessenger'')) (\<lambda>messenger.
     request_send R from_addr messenger burnData)))"

text \<open>
  After the burn's receipt: the success status, then the two timers. Their callbacks
  run after \<^verbatim>\<open>processPayment\<close> has returned and are recorded, not run.
\<close>

definition finish_payment :: "runtime \<Rightarrow> app_state \<Rightarrow> string \<Rightarrow> string \<Rightarrow> unit io" where
  "finish_payment R c from_addr burnTx =
     seq (lift (read_config (map_of CHAIN_CONFIG (sourceChain c)) name ''name'')) (\<lambda>from_name.
     seq (lift (read_config (map_of CHAIN_CONFIG (destinationChain c)) name ''name'')) (\<lambda>to_name.
     seq (update_ui (\<lambda>s. s\<lparr>transactionStatus := Some
            \<lparr>status = Success, message = ''Payment sent successfully!'',
             details = Some
               \<lparr>from_chain = from_name, to_chain = to_name,
                amount_text = amount c @ '' USDC'',
                recipient = merchantAddress c,
                txHash = burnTx,
                estimatedTime = (if fastTransferEnabled c then ''~10 seconds'' else ''~15 minutes''),
                hook = (case selectedHook c of
                          Some h \<Rightarrow> hook_name (HOOK_TEMPLATES h)
                        | None \<Rightarrow> ''None'')\<rparr>\<rparr>\<rparr>)) (\<lambda>u.
     seq (if fastTransferEnabled c then emit (SetTimeout 5000 AttestationReceived) else ret ()) (\<lambda>u.
     emit (SetTimeout 10000 (RefreshBalances from_addr))))))"

text \<open>The body of the \<^verbatim>\<open>try\<close>.\<close>

definition payment_try :: "runtime \<Rightarrow> app_state \<Rightarrow> string \<Rightarrow> world \<Rightarrow> ((js_error + unit) \<times> world) option" where
  "payment_try R c from_addr w =
     (case approval_submit R c from_addr w of
        (Inl e, w1) \<Rightarrow> Some (Inl e, w1)
      | (Inr approveTx, w1) \<Rightarrow>
          (case waitForReceipt R approveTx w1 of
             None \<Rightarrow> None
           | Some (Inl e, w2) \<Rightarrow> Some (Inl e, w2)
           | Some (Inr u, w2) \<Rightarrow>
               (case burn_submit R c from_addr w2 of
                  (Inl e, w3) \<Rightarrow> Some (Inl e, w3)
                | (Inr burnTx, w3) \<Rightarrow>
                    (case waitForReceipt R burnTx w3 of
                       None \<Rightarrow> None
                     | Some (Inl e, w4) \<Rightarrow> Some (Inl e, w4)
                     | Some (Inr u, w4) \<Rightarrow> Some (finish_payment R c from_addr burnTx w4)))))"

text \<open>The \<^verbatim>\<open>catch\<close> and the \<^verbatim>\<open>finally\<close> of \<^verbatim>\<open>processPayment\<close>.\<close>

definition payment_catch :: "(js_error + unit) \<times> world \<Rightarrow> world" where
  "payment_catch rw = (case rw of
       (Inr u, w) \<Rightarrow> w
     | (Inl e, w) \<Rightarrow>
         w\<lparr>events := events w @ [ConsoleError ''Payment error:'' e],
           ui := (ui w)\<lparr>transactionStatus := Some
             \<lparr>status = Error,
              message = ''Payment failed: '' @ (if error_message e = [] then ''Unknown error'' else error_message e),
              details = None\<rparr>\<rparr>\<rparr>)"

definition payment_finally :: "world \<Rightarrow> world" where
  "payment_finally w = w\<lparr>ui := (ui w)\<lparr>isProcessing := False\<rparr>\<rparr>"

text \<open>
  \<^verbatim>\<open>processPayment\<close>, started in the state \<open>c\<close> that its closure captured; \<open>None\<close>
  when it never returns.
\<close>

definition processPayment :: "runtime \<Rightarrow> app_state \<Rightarrow> world \<Rightarrow> world option" where
  "processPayment R c w = (case account c of
       None \<Rightarrow> Some (w\<lparr>events := events w @ [Alert ''Please connect your wallet first'']\<rparr>)
     | Some a \<Rightarrow>
         (if a = [] then Some (w\<lparr>events := events w @ [Alert ''Please connect your wallet first'']\<rparr>)
          else map_option (\<lambda>rw. payment_finally (payment_catch rw))
                 (payment_try R c a
                    (w\<lparr>ui := (ui w)\<lparr>isProcessing := True,
                                     transactionStatus := Some (pending ''Initiating payment...'')\<rparr>\<rparr>))))"

text \<open>
  The button that starts a payment:
  \<^verbatim>\<open>disabled={!account || isProcessing || !amount || parseFloat(amount) <= 0}\<close>
\<close>

definition payButtonDisabled :: "app_state \<Rightarrow> bool" where
  "payButtonDisabled c =
     ((case account c of None \<Rightarrow> True | Some a \<Rightarrow> a = []) \<or> isProcessing c \<or> amount c = []
      \<or> num_le (parseFloat (amount c)) (Fin 0))"

text \<open>
  The buttons of the route. A source button:
  \<^verbatim>\<open>onClick={() => setSourceChain(parseInt(chainId))}\<close>. A destination button:
  \<^verbatim>\<open>onClick={() => setDestinationChain(parseInt(chainId))}
  disabled={parseInt(chainId) === sourceChain}\<close>; a disabled button does not run its handler.
\<close>

definition selectSource :: "nat \<Rightarrow> app_state \<Rightarrow> app_state" where
  "selectSource chainId c = c\<lparr>sourceChain := chainId\<rparr>"

definition destinationButtonDisabled :: "app_state \<Rightarrow> nat \<Rightarrow> bool" where
  "destinationButtonDisabled c chainId = (chainId = sourceChain c)"

definition selectDestination :: "nat \<Rightarrow> app_state \<Rightarrow> app_state" where
  "selectDestination chainId c =
     (if destinationButtonDisabled c chainId then c else c\<lparr>destinationChain := chainId\<rparr>)"

section \<open>Scenarios\<close>

text \<open>
  The parameters of the burn in the end-to-end scenario of the specification: Ethereum to
  Arbitrum (domain 3), amount \<^verbatim>\<open>"10"\<close>, fast transfer, hook \<^verbatim>\<open>treasuryRebalance\<close>.
\<close>

definition scenario_params :: "(string \<times> jsval) list" where
  "scenario_params =
     [(''amount'', JNum (Fin 10000000)),
      (''destinationDomain'', JNum (Fin 3)),
      (''mintRecipient'', JStr ''0x000000000000000000000000742d35Cc6634C0532925a3b844Bc9e7595f8C2B2''),
      (''burnToken'', JStr ''0xA0b86991c6218b36c1d19D4a2e9Eb0cE3606eB48''),
      (''hookData'', JStr ''0x04'')]"

text \<open>
  A wallet that accepts every request: it is on Ethereum, answers a balance of zero and
  six decimals (which the engine displays as \<^verbatim>\<open>0.00\<close>), names a transaction after the
  contract it is sent to, and has every transaction mined with status \<^verbatim>\<open>0x1\<close> at the
  first poll.
\<close>

definition cooperative :: runtime where
  "cooperative =
     \<lparr>eth_chainId = (\<lambda>h. Inr ''0x1''),
      eth_call = (\<lambda>h to_addr data. Inr (if data = Str ''0x313ce567'' then ''0x6'' else ''0x'')),
      eth_sendTransaction = (\<lambda>h from_addr to_addr data. Inr (''0x7a'' @ drop 2 to_addr)),
      eth_getTransactionReceipt =
        (\<lambda>h tx. Inr (Some \<lparr>transactionHash = tx, receipt_status = ''0x1''\<rparr>)),
      wallet_switchEthereumChain = (\<lambda>h chain. Inr ()),
      displayBalance = (\<lambda>balance decimalsText. ''0.00'')\<rparr>"

text \<open>The initial values of the component's state, with a connected account.\<close>

definition initial_state :: app_state where
  "initial_state =
     \<lparr>account = Some ''0x1111111111111111111111111111111111111111'',
      sourceChain = 1, destinationChain = 42161, amount = ''100'',
      merchantAddress = ''0x742d35Cc6634C0532925a3b844Bc9e7595f8C2B2'',
      selectedHook = Some treasuryRebalance, isProcessing = False,
      transactionStatus = None, balances = [], fastTransferEnabled = True\<rparr>"

definition start :: "app_state \<Rightarrow> world" where
  "start c = \<lparr>ui = c, events = []\<rparr>"

text \<open>The same page in standard mode, and with a recipient that is not an address.\<close>

definition standard_state :: app_state where
  "standard_state = initial_state\<lparr>fastTransferEnabled := False\<rparr>"

definition malformed_recipient_state :: app_state where
  "malformed_recipient_state = standard_state\<lparr>merchantAddress := ''merchant''\<rparr>"

text \<open>The end-to-end scenario of the specification: amount \<^verbatim>\<open>"10"\<close>, fast, with the hook.\<close>

definition spec_scenario_state :: app_state where
  "spec_scenario_state = initial_state\<lparr>amount := ''10''\<rparr>"

text \<open>Wallets that differ from the cooperative one in one answer.\<close>

definition never_mined :: runtime where
  "never_mined = cooperative\<lparr>eth_getTransactionReceipt := (\<lambda>h tx. Inr None)\<rparr>"

definition poll_rejects :: runtime where
  "poll_rejects = cooperative\<lparr>eth_getTransactionReceipt :=
     (\<lambda>h tx. Inl (ProviderError (Some (- 32603)) ''Internal JSON-RPC error''))\<rparr>"

definition unknown_chain :: runtime where
  "unknown_chain = cooperative\<lparr>wallet_switchEthereumChain :=
     (\<lambda>h chain. Inl (ProviderError (Some 4902) ''Unrecognized chain ID''))\<rparr>"

definition offline :: runtime where
  "offline = cooperative\<lparr>eth_call :=
     (\<lambda>h to_addr data. Inl (ProviderError (Some (- 32603)) ''Internal JSON-RPC error''))\<rparr>"

definition rejecting :: runtime where
  "rejecting = cooperative\<lparr>eth_sendTransaction :=
     (\<lambda>h from_addr to_addr data. Inl (ProviderError (Some 4001) ''User rejected the request.''))\<rparr>"



text \<open>
  A wallet that holds 3 USDC on every chain (\<^verbatim>\<open>0x2dc6c0\<close> base units, six decimals,
  displayed as \<^verbatim>\<open>3.00\<close>) and is on Arbitrum when first asked for its chain, on Base
  from then on.
\<close>

definition roaming :: runtime where
  "roaming = cooperative\<lparr>
     eth_chainId := (\<lambda>h. Inr (if Request Eth_chainId \<in> set h then ''0x2105'' else ''0xa4b1'')),
     eth_call := (\<lambda>h to_addr data. Inr (if data = Str ''0x313ce567'' then ''0x6'' else ''0x2dc6c0'')),
     displayBalance := (\<lambda>balance decimalsText.
        if balance = ''3000000'' \<and> decimalsText = ''6'' then ''3.00'' else ''0.00'')\<rparr>"

text \<open>
  The page after the wallet has changed chain once, and twice, since the account was
  connected: both times the listener registered with the account runs.
\<close>

definition after_first_change :: world where
  "after_first_change = snd (chainChanged_listener roaming initial_state (start initial_state))"

definition after_second_change :: world where
  "after_second_change = snd (chainChanged_listener roaming initial_state after_first_change)"

text \<open>A wallet whose receipts are those of \<open>R\<close> rewritten by \<open>f\<close>.\<close>

definition with_receipts :: "(receipt \<Rightarrow> receipt) \<Rightarrow> runtime \<Rightarrow> runtime" where
  "with_receipts f R = R\<lparr>eth_getTransactionReceipt :=
     (\<lambda>h tx. map_sum id (map_option f) (eth_getTransactionReceipt R h tx))\<rparr>"

definition reverted :: "receipt \<Rightarrow> receipt" where
  "reverted r = r\<lparr>receipt_status := ''0x0''\<rparr>"


text \<open>The contracts queried by \<^verbatim>\<open>eth_call\<close> in a trace.\<close>

fun call_target :: "event \<Rightarrow> string option" where
  "call_target (Request (Eth_call t d)) = Some t"
| "call_target ev = None"

definition queried :: "event list \<Rightarrow> string list" where
  "queried evs = List.map_filter call_target evs"

text \<open>The transactions submitted in a run (recipient and call data), and its last status.\<close>

fun sent_data :: "event \<Rightarrow> (string \<times> payload) option" where
  "sent_data (Request (Eth_sendTransaction f t d)) = Some (t, d)"
| "sent_data ev = None"

definition sends :: "event list \<Rightarrow> (string \<times> payload) list" where
  "sends evs = List.map_filter sent_data evs"

definition submitted :: "world \<Rightarrow> (string \<times> payload) list" where
  "submitted w = sends (events w)"

definition last_status :: "world \<Rightarrow> status_kind option" where
  "last_status w = map_option status (transactionStatus (ui w))"

text \<open>The state in which the handler of \<^verbatim>\<open>processPayment\<close> leaves the page after an error.\<close>

definition failed_with :: "js_error \<Rightarrow> world \<Rightarrow> bool" where
  "failed_with e w \<longleftrightarrow>
     transactionStatus (ui w) = Some \<lparr>status = Error,
        message = ''Payment failed: '' @ (if error_message e = [] then ''Unknown error'' else error_message e),
        details = None\<rparr>
     \<and> \<not> isProcessing (ui w)
     \<and> events w \<noteq> [] \<and> last (events w) = ConsoleError ''Payment error:'' e"

text \<open>
  The trace of \<open>n\<close> rounds of the wait for \<open>tx\<close>, and: the first \<open>n\<close> polls of a wait that
  starts after the history \<open>h\<close> return no receipt.
\<close>

fun polls :: "nat \<Rightarrow> string \<Rightarrow> event list" where
  "polls 0 tx = []"
| "polls (Suc n) tx = polls n tx @ [Sleep 2000, Request (Eth_getTransactionReceipt tx)]"

definition empty_polls :: "runtime \<Rightarrow> event list \<Rightarrow> string \<Rightarrow> nat \<Rightarrow> bool" where
  "empty_polls R h tx n \<longleftrightarrow>
     (\<forall>i<n. eth_getTransactionReceipt R (h @ polls i tx @ [Sleep 2000]) tx = Inr None)"

text \<open>
  Wallets that tell the two waits of a payment apart by the transactions sent so far:
  the approval is mined at the first poll, the burn is never mined, or its polls are
  rejected. And a wallet that has no receipt at the first poll of a transaction and a
  reverted one from the second poll on.
\<close>

definition burn_never_mined :: runtime where
  "burn_never_mined = cooperative\<lparr>eth_getTransactionReceipt :=
     (\<lambda>h tx. if length (sends h) < 2 then Inr (Some \<lparr>transactionHash = tx, receipt_status = ''0x1''\<rparr>)
              else Inr None)\<rparr>"

definition burn_poll_rejects :: runtime where
  "burn_poll_rejects = cooperative\<lparr>eth_getTransactionReceipt :=
     (\<lambda>h tx. if length (sends h) < 2 then Inr (Some \<lparr>transactionHash = tx, receipt_status = ''0x1''\<rparr>)
              else Inl (ProviderError (Some (- 32603)) ''Internal JSON-RPC error''))\<rparr>"

definition slow_reverted :: runtime where
  "slow_reverted = cooperative\<lparr>eth_getTransactionReceipt :=
     (\<lambda>h tx. if Request (Eth_getTransactionReceipt tx) \<in> set h
              then Inr (Some \<lparr>transactionHash = tx, receipt_status = ''0x0''\<rparr>)
              else Inr None)\<rparr>"

section \<open>Evaluation lemmas\<close>

lemma replicate_numeral: "replicate (numeral k) x = x # replicate (pred_numeral k) x"
  by (simp add: numeral_eq_Suc)

lemma hex_of_nat_numeral:
  "hex_of_nat (numeral k) =
     (if (numeral k :: nat) < 16 then [hexdigit (numeral k)]
      else hex_of_nat (numeral k div 16) @ [hexdigit (numeral k mod 16)])"
  "hex_of_nat 0 = ''0''"
  "hex_of_nat (Suc 0) = ''1''"
  by (simp_all add: hex_of_nat.simps [of "numeral k"] hex_of_nat.simps [of 0]
      hex_of_nat.simps [of "Suc 0"] hexdigit_def)

lemma dec_of_nat_numeral:
  "dec_of_nat (numeral k) =
     (if (numeral k :: nat) < 10 then [hexdigit (numeral k)]
      else dec_of_nat (numeral k div 10) @ [hexdigit (numeral k mod 10)])"
  "dec_of_nat 0 = ''0''"
  "dec_of_nat (Suc 0) = ''1''"
  by (simp_all add: dec_of_nat.simps [of "numeral k"] dec_of_nat.simps [of 0]
      dec_of_nat.simps [of "Suc 0"] hexdigit_def)

lemma floor_rat_numeral: "\<lfloor>numeral a / numeral b :: rat\<rfloor> = numeral a div numeral b"
  by (metis floor_divide_of_int_eq of_int_numeral)

lemma floor_rat_one: "\<lfloor>1 / numeral b :: rat\<rfloor> = 1 div numeral b"
  by (metis floor_divide_of_int_eq of_int_1 of_int_numeral)

lemma ceiling_rat_numeral: "\<lceil>numeral a / numeral b :: rat\<rceil> = - (- numeral a div numeral b)"
  using ceiling_divide_eq_div [of "numeral a" "numeral b", where 'a = rat] by simp

lemmas fl_eval = floor_rat_numeral floor_rat_one ceiling_rat_numeral fl_def fl_pos_def ilog2_def
  bitlen_def compute_floorlog pow2_def round_half_even_def Let_def neg_def

lemmas parse_eval = parseFloat_def decimal_prefix_def unsigned_prefix_def exponent_part_def
  pow10_def is_space_def is_digit_def digit_val_def digit_table_def nat_of_digits_def

lemmas amount_eval = amountInUnits_def Math_floor_def num_mul_def parse_eval fl_eval

lemmas enc_defs = encodeFunctionCall_def signature_of_def functionSignatures_def getProp_def
  padded_def js_slice2_def js_toString16_def padHex_def padStart_def js_plus_def
  number_toString16_def mag16_def hexdigit_def hook_length_word_def js_length_def
  object_prototype_members_def replicate_numeral addressToBytes32_def hex_of_nat_numeral

lemmas parse_defs = bigint_of_string_def trim_def digits_value_def is_space_def is_digit_def
  digit_val_def digit_table_def nat_of_digits_def dec_of_int_def fromHex_def parseHexResponse_def
  dec_of_nat_numeral

lemmas io_defs = seq_def ret_def lift_def catch_def emit_def update_ui_def request_chainId_def
  request_call_def request_send_def request_receipt_def request_switch_def read_config_def
  and_then_def

lemmas flow_defs = processPayment_def payment_try_def approval_submit_def burn_submit_def
  finish_payment_def payment_catch_def payment_finally_def burn_calldata_def hook_calldata_def
  caller_calldata_def switchNetwork_def getUSDCBalance_def getUSDCBalance_try_def pending_def
  CHAIN_CONFIG_def HOOK_TEMPLATES_def error_code_def error_message_def
  submitted_def sends_def last_status_def queried_def List.map_filter_def start_def

lemmas scenario_defs = cooperative_def initial_state_def standard_state_def
  malformed_recipient_state_def spec_scenario_state_def
  never_mined_def poll_rejects_def unknown_chain_def offline_def rejecting_def
  with_receipts_def reverted_def

lemma sends_simps:
  "sends (xs @ ys) = sends xs @ sends ys"
  "sends [] = []"
  "sends (Request (Eth_sendTransaction f t d) # xs) = (t, d) # sends xs"
  "sends (Request Eth_chainId # xs) = sends xs"
  "sends (Request (Eth_call t d) # xs) = sends xs"
  "sends (Request (Eth_getTransactionReceipt tx) # xs) = sends xs"
  "sends (Request (Wallet_switchEthereumChain ch) # xs) = sends xs"
  "sends (Alert m # xs) = sends xs"
  "sends (ConsoleError m e # xs) = sends xs"
  "sends (Sleep k # xs) = sends xs"
  "sends (SetTimeout k cb # xs) = sends xs"
  by (simp_all add: sends_def List.map_filter_def)

lemma submitted_simps:
  "submitted (w\<lparr>events := evs\<rparr>) = sends evs"
  "submitted (w\<lparr>ui := u\<rparr>) = submitted w"
  by (simp_all add: submitted_def)

lemma sends_polls: "sends (polls n tx) = []"
  by (induction n) (simp_all add: sends_simps)

lemma fromHex_arbitrum: "fromHex ''0xa4b1'' = Some 42161"
  by (simp add: parse_defs)

lemma fromHex_base: "fromHex ''0x2105'' = Some 8453"
  by (simp add: parse_defs)

lemma parseHexResponse_balance:
  "parseHexResponse ''0x2dc6c0'' = Inr ''3000000''"
  "parseHexResponse ''0x6'' = Inr ''6''"
  by (simp_all add: parse_defs hexdigit_def)

section \<open>The call encoder\<close>

text \<open>
  C1. The claim: for a hook payment, \<^verbatim>\<open>encode('depositForBurnWithHook', params)\<close> returns
  the selector, the static parameters, the offset \<^verbatim>\<open>0x80\<close>, the length word and the
  padded hook data. The code does not: the length \<^verbatim>\<open>(params.hookData.length - 2) / 2\<close> is
  a number, \<^verbatim>\<open>padHex\<close> calls \<^verbatim>\<open>padStart\<close> on it, and a number has no such method. On
  the parameters of the end-to-end scenario the call throws a \<^verbatim>\<open>TypeError\<close>.
\<close>

theorem encode_hook_scenario_throws:
  "encodeFunctionCall ''depositForBurnWithHook'' scenario_params
     = Inl (TypeError ''hex.padStart is not a function'')"
  by (simp add: enc_defs scenario_params_def)

text \<open>It throws a \<^verbatim>\<open>TypeError\<close> whatever the parameters are.\<close>

lemma encode_hook_always_throws:
  "\<exists>m. encodeFunctionCall ''depositForBurnWithHook'' params = Inl (TypeError m)"
  by (simp add: encodeFunctionCall_def signature_of_def functionSignatures_def padded_def
      js_slice2_def js_toString16_def padHex_def js_plus_def hook_length_word_def js_length_def
      split: jsval.splits sum.splits)

text \<open>
  C5. The claim: for a name outside the five signatures the encoder fails with
  \<^verbatim>\<open>UnknownFunction\<close>. The code has no such check: the lookup in the table yields
  \<^verbatim>\<open>undefined\<close>, no branch is taken and \<^verbatim>\<open>undefined\<close> is returned.
\<close>

theorem encode_unknown_counterexample:
  "encodeFunctionCall ''transfer''
     [(''to'', JStr ''0x742d35Cc6634C0532925a3b844Bc9e7595f8C2B2''), (''amount'', JNum (Fin 1))]
     = Inr Undefined"
  by (simp add: enc_defs)

text \<open>
  C5, amended. For every name that is not one of the five signatures the encoder raises
  no error and returns what the lookup in the signature table yields, which is never a
  string of call data: \<^verbatim>\<open>undefined\<close>, or for a name such as \<^verbatim>\<open>toString\<close> the member
  inherited from \<^verbatim>\<open>Object.prototype\<close>.
\<close>

theorem encode_unknown_returns_lookup:
  assumes "functionName \<notin> set (map fst functionSignatures)"
  shows "encodeFunctionCall functionName params
           = Inr (if functionName \<in> set object_prototype_members then Member functionName
                  else Undefined)
         \<and> (\<forall>d. encodeFunctionCall functionName params \<noteq> Inr (Str d))"
proof -
  from assms have none: "map_of functionSignatures functionName = None"
    by (simp add: map_of_eq_None_iff)
  from assms have "functionName \<noteq> ''approve''" "functionName \<noteq> ''balanceOf''"
    "functionName \<noteq> ''depositForBurnWithCaller''" "functionName \<noteq> ''depositForBurnWithHook''"
    by (auto simp: functionSignatures_def)
  then have "encodeFunctionCall functionName params = Inr (signature_of functionName)"
    by (simp add: encodeFunctionCall_def)
  with none show ?thesis
    by (simp add: signature_of_def)
qed

theorem encode_unknown_returns_lookup_witness:
  "''mint'' \<notin> set (map fst functionSignatures)
   \<and> encodeFunctionCall ''mint'' [(''amount'', JNum (Fin 5))] = Inr Undefined
   \<and> encodeFunctionCall ''toString'' [] = Inr (Member ''toString'')"
  using encode_unknown_returns_lookup [of "''mint''" "[(''amount'', JNum (Fin 5))]"]
    encode_unknown_returns_lookup [of "''toString''" "[]"]
  by (simp add: functionSignatures_def object_prototype_members_def)

text \<open>
  The values that the README documents for the helpers and for the encoding of
  \<^verbatim>\<open>approve\<close> (its comparison of addresses ignores the case of the letters).
\<close>

lemma documented_test_vectors:
  "toHex (Fin 0) = ''0x0''"
  "toHex (Fin 255) = ''0xff''"
  "toHex (Fin 1000000) = ''0xf4240''"
  "padHex (JStr ''ff'') 4 = Inr ''00ff''"
  "padHex (JStr ''1234'') 8 = Inr ''00001234''"
  "padHex (JStr ''abcdef'') 6 = Inr ''abcdef''"
  "addressToBytes32 ''0x742d35Cc6634C0532925a3b844Bc9e7595f8C2B2''
     = ''0x000000000000000000000000742d35Cc6634C0532925a3b844Bc9e7595f8C2B2''"
  "encodeFunctionCall ''approve''
     [(''spender'', JStr ''0xBd3fa81B58Ba92a82136038B25aDec7066af3155''),
      (''amount'', JNum (Fin 1000000))]
     = Inr (Str ''0x095ea7b3000000000000000000000000Bd3fa81B58Ba92a82136038B25aDec7066af315500000000000000000000000000000000000000000000000000000000000f4240'')"
  by (simp_all add: toHex_def enc_defs)

section \<open>The amount in base units\<close>

lemma amountInUnits_100: "amountInUnits ''100'' = Fin 100000000"
  by (simp add: amount_eval)

lemma amountInUnits_10: "amountInUnits ''10'' = Fin 10000000"
  by (simp add: amount_eval)

lemma parseFloat_100: "parseFloat ''100'' = Fin 100"
  by (simp add: parse_eval fl_eval)

text \<open>
  C6. The claim: an amount with at most six fractional digits is submitted as the amount
  times \<open>10\<^sup>6\<close>. The code multiplies doubles: the double nearest to \<open>8.2\<close> times
  \<open>10\<^sup>6\<close> rounds to \<open>8199999.999999999\<close>, and \<^verbatim>\<open>Math.floor\<close> gives \<open>8199999\<close>, one
  unit less than \<open>8200000\<close>. The example of the claim, \<open>1.2345678\<close>, gives \<open>1234567\<close>.
\<close>

theorem amountInUnits_loses_a_unit:
  "amountInUnits ''8.2'' = Fin 8199999 \<and> amountInUnits ''1.2345678'' = Fin 1234567"
  by (simp add: amount_eval)

section \<open>Balances\<close>

lemma chain_keys_eq: "chain_keys = [1, 146, 8453, 42161, 43114, 59144]"
  by (simp add: chain_keys_def CHAIN_CONFIG_def)

lemma encode_balanceOf: "encodeFunctionCall ''balanceOf'' [(''account'', JStr a)]
    = Inr (Str (''0x70a08231'' @ padStart (drop 2 a) 64))"
  by (simp add: encodeFunctionCall_def signature_of_def functionSignatures_def getProp_def
      padded_def js_slice2_def padHex_def js_plus_def)

lemma encode_decimals: "encodeFunctionCall ''decimals'' ps = Inr (Str ''0x313ce567'')"
  by (simp add: encodeFunctionCall_def signature_of_def functionSignatures_def)

lemma encode_approve: "encodeFunctionCall ''approve'' [(''spender'', JStr s), (''amount'', JNum n)]
    = Inr (Str (''0x095ea7b3'' @ padStart (drop 2 s) 64 @ padStart (number_toString16 n) 64))"
  by (simp add: encodeFunctionCall_def signature_of_def functionSignatures_def getProp_def
      padded_def js_slice2_def js_toString16_def padHex_def js_plus_def)

lemma encode_caller:
  "encodeFunctionCall ''depositForBurnWithCaller''
     [(''amount'', JNum n), (''destinationDomain'', JNum d), (''mintRecipient'', JStr m),
      (''burnToken'', JStr t), (''destinationCaller'', JStr dc)]
    = Inr (Str (''0x8c7af8a5'' @ padStart (number_toString16 n) 64 @ padStart (number_toString16 d) 64
              @ drop 2 m @ padStart (drop 2 t) 64 @ drop 2 dc))"
  by (simp add: encodeFunctionCall_def signature_of_def functionSignatures_def getProp_def
      padded_def js_slice2_def js_toString16_def padHex_def js_plus_def)

text \<open>
  \<^verbatim>\<open>getUSDCBalance\<close> never throws, changes nothing on the page, sends no transaction and
  queries only the USDC contract of the chain it is given.
\<close>

lemma getUSDCBalance_frame_aux:
  "(\<exists>b. fst (getUSDCBalance R a k w) = Inr b)
   \<and> ui (snd (getUSDCBalance R a k w)) = ui w
   \<and> take (length (events w)) (events (snd (getUSDCBalance R a k w))) = events w
   \<and> (\<forall>t \<in> set (queried (drop (length (events w)) (events (snd (getUSDCBalance R a k w))))).
         \<exists>cfg. map_of CHAIN_CONFIG k = Some cfg \<and> t = usdc cfg)"
  by (auto simp: getUSDCBalance_def getUSDCBalance_try_def io_defs encode_balanceOf encode_decimals
      queried_def List.map_filter_def Let_def
      split: sum.splits prod.splits option.splits)

lemma getUSDCBalance_frame:
  "\<exists>b new. getUSDCBalance R a k w = (Inr b, w\<lparr>events := events w @ new\<rparr>)
     \<and> (\<forall>t \<in> set (queried new). \<exists>cfg. map_of CHAIN_CONFIG k = Some cfg \<and> t = usdc cfg)"
proof -
  let ?r = "getUSDCBalance R a k w"
  from getUSDCBalance_frame_aux [of R a k w] obtain b where
    b: "fst ?r = Inr b" and u: "ui (snd ?r) = ui w"
    and t: "take (length (events w)) (events (snd ?r)) = events w"
    and q: "\<forall>t \<in> set (queried (drop (length (events w)) (events (snd ?r)))).
         \<exists>cfg. map_of CHAIN_CONFIG k = Some cfg \<and> t = usdc cfg"
    by blast
  let ?new = "drop (length (events w)) (events (snd ?r))"
  from t have "events (snd ?r) = events w @ ?new"
    by (metis append_take_drop_id)
  with u have "snd ?r = w\<lparr>events := events w @ ?new\<rparr>"
    by (cases "snd ?r", cases w) simp
  with b have "?r = (Inr b, w\<lparr>events := events w @ ?new\<rparr>)"
    by (cases ?r) simp
  with q show ?thesis by blast
qed

lemma getUSDCBalance_sends:
  "sends (events (snd (getUSDCBalance R a k w))) = sends (events w)"
  by (auto simp: getUSDCBalance_def getUSDCBalance_try_def io_defs encode_balanceOf encode_decimals
      sends_simps Let_def split: sum.splits prod.splits option.splits)




lemma map_of_foldl_update:
  "map_of (foldl (\<lambda>nb k. if P k then AList.update k (g k) nb else nb) init ks) k
     = (if k \<in> set ks \<and> P k then Some (g k) else map_of init k)"
  by (induction ks arbitrary: init) (auto simp: update_conv')

lemma registered_Some:
  "registered n = Some k \<longleftrightarrow> n = Some (int k) \<and> map_of CHAIN_CONFIG k \<noteq> None"
  by (auto simp: registered_def split: option.splits if_splits)


text \<open>
  What a refresh does, \<open>c\<close> being the state its closure captured. On a registered chain
  it queries the USDC contract of that chain and of no other, stores the live balance for
  it, and gives every other registered chain the balance of \<open>c\<close>, or \<^verbatim>\<open>'0'\<close>. On any
  other chain it queries nothing.
\<close>

lemma updateBalances_active:
  assumes cid: "eth_chainId R (events w) = Inr currentChainId"
    and k: "fromHex currentChainId = Some (int k)"
    and cfg: "map_of CHAIN_CONFIG k = Some cfg"
  shows "\<exists>b new bs.
        getUSDCBalance R address k (w\<lparr>events := events w @ [Request Eth_chainId]\<rparr>)
          = (Inr b, w\<lparr>events := events w @ Request Eth_chainId # new\<rparr>)
      \<and> updateBalances R c address w
          = (Inr (), w\<lparr>ui := (ui w)\<lparr>balances := bs\<rparr>,
                       events := events w @ Request Eth_chainId # new\<rparr>)
      \<and> map_of bs k = Some b
      \<and> (\<forall>k' \<in> set chain_keys. k' \<noteq> k \<longrightarrow> map_of bs k' = Some (cached c k'))
      \<and> set (queried new) \<subseteq> {usdc cfg}"
proof -
  from k cfg have reg: "registered (fromHex currentChainId) = Some k"
    by (simp add: registered_Some)
  let ?w1 = "w\<lparr>events := events w @ [Request Eth_chainId]\<rparr>"
  from getUSDCBalance_frame [of R address k ?w1] obtain b new where
    g: "getUSDCBalance R address k ?w1 = (Inr b, ?w1\<lparr>events := events ?w1 @ new\<rparr>)"
    and q: "\<forall>t \<in> set (queried new). \<exists>cfg. map_of CHAIN_CONFIG k = Some cfg \<and> t = usdc cfg"
    by blast
  let ?bs = "foldl (\<lambda>nb k'. if Some (int k') \<noteq> fromHex currentChainId
                            then AList.update k' (cached c k') nb else nb) [(k, b)] chain_keys"
  from reg cid g have "updateBalances R c address w
      = (Inr (), w\<lparr>ui := (ui w)\<lparr>balances := ?bs\<rparr>, events := events w @ Request Eth_chainId # new\<rparr>)"
    by (simp add: updateBalances_def io_defs Let_def)
  moreover from k have "map_of ?bs k = Some b"
    by (simp add: map_of_foldl_update)
  moreover from k have "\<forall>k' \<in> set chain_keys. k' \<noteq> k \<longrightarrow> map_of ?bs k' = Some (cached c k')"
    by (auto simp: map_of_foldl_update)
  moreover from q cfg have "set (queried new) \<subseteq> {usdc cfg}"
    by auto
  moreover from g have "getUSDCBalance R address k ?w1
      = (Inr b, w\<lparr>events := events w @ Request Eth_chainId # new\<rparr>)"
    by simp
  ultimately show ?thesis
    by (intro exI [of _ b] exI [of _ new] exI [of _ ?bs]) simp
qed

lemma updateBalances_unregistered:
  assumes cid: "eth_chainId R (events w) = Inr currentChainId"
    and none: "registered (fromHex currentChainId) = None"
  shows "\<exists>bs. updateBalances R c address w
          = (Inr (), w\<lparr>ui := (ui w)\<lparr>balances := bs\<rparr>,
                       events := events w @ [Request Eth_chainId]\<rparr>)
      \<and> (\<forall>k \<in> set chain_keys. map_of bs k = Some (cached c k))"
proof -
  let ?bs = "foldl (\<lambda>nb k. if Some (int k) \<noteq> fromHex currentChainId
                            then AList.update k (cached c k) nb else nb) [] chain_keys"
  from none cid have "updateBalances R c address w
      = (Inr (), w\<lparr>ui := (ui w)\<lparr>balances := ?bs\<rparr>, events := events w @ [Request Eth_chainId]\<rparr>)"
    by (simp add: updateBalances_def io_defs Let_def)
  moreover have "\<forall>k \<in> set chain_keys. map_of ?bs k = Some (cached c k)"
  proof
    fix k assume "k \<in> set chain_keys"
    then have "map_of CHAIN_CONFIG k \<noteq> None"
      by (auto simp: chain_keys_def map_of_eq_None_iff)
    with none have "fromHex currentChainId \<noteq> Some (int k)"
      by (auto simp: registered_def split: option.splits if_splits)
    with \<open>k \<in> set chain_keys\<close> show "map_of ?bs k = Some (cached c k)"
      by (auto simp: map_of_foldl_update)
  qed
  ultimately show ?thesis by blast
qed

lemmas refresh_eval = chainChanged_listener_def updateBalances_def getUSDCBalance_def
  getUSDCBalance_try_def io_defs roaming_def cooperative_def initial_state_def start_def
  fromHex_arbitrum fromHex_base registered_def CHAIN_CONFIG_def chain_keys_eq encode_balanceOf
  encode_decimals parseHexResponse_balance cached_def Let_def

lemma after_first_change_eq:
  "after_first_change = \<lparr>ui = initial_state\<lparr>balances :=
        [(42161, ''3.00''), (1, ''0''), (146, ''0''), (8453, ''0''), (43114, ''0''), (59144, ''0'')]\<rparr>,
      events = [Request Eth_chainId,
        Request (Eth_call ''0xaf88d065e77c8cC2239327C5EDb3A432268e5831''
          (Str ''0x70a082310000000000000000000000001111111111111111111111111111111111111111'')),
        Request (Eth_call ''0xaf88d065e77c8cC2239327C5EDb3A432268e5831'' (Str ''0x313ce567''))]\<rparr>"
  unfolding after_first_change_def
  by (simp add: refresh_eval padStart_def replicate_numeral)

text \<open>
  C9. The claim: on a refresh only the active chain is queried live, and every other
  registered chain shows its previously cached value. The refresh does read
  \<^verbatim>\<open>balances[chainId] || '0'\<close> for the other chains, but from the state its closure
  captured, and the listener for \<^verbatim>\<open>chainChanged\<close> keeps the closure of the render in
  which the account was connected, where \<^verbatim>\<open>balances\<close> is still empty. With a wallet
  that holds 3 USDC everywhere: after a change to Arbitrum the page shows \<^verbatim>\<open>3.00\<close> for
  Arbitrum; after a further change to Base it shows \<^verbatim>\<open>0\<close> for Arbitrum, not the
  \<^verbatim>\<open>3.00\<close> it had. Only the USDC contract of the active chain was queried each time.
\<close>

theorem chain_change_forgets_displayed_balance:
  "map_of (balances (ui after_first_change)) 42161 = Some ''3.00''
   \<and> map_of (balances (ui after_second_change)) 42161 = Some ''0''
   \<and> map_of (balances (ui after_second_change)) 8453 = Some ''3.00''
   \<and> queried (events after_second_change)
       = [''0xaf88d065e77c8cC2239327C5EDb3A432268e5831'', ''0xaf88d065e77c8cC2239327C5EDb3A432268e5831'',
          ''0x833589fCD6eDb6E08f4c7C32D4f71b54bdA02913'', ''0x833589fCD6eDb6E08f4c7C32D4f71b54bdA02913'']"
  unfolding after_second_change_def after_first_change_eq
  by (simp add: refresh_eval queried_def List.map_filter_def)

section \<open>Waiting for a receipt\<close>

lemma waitForReceipt_mined:
  assumes "eth_getTransactionReceipt R (events w @ [Sleep 2000]) tx = Inr (Some r)"
  shows "waitForReceipt R tx w
           = Some (Inr (), w\<lparr>events := events w @ [Sleep 2000, Request (Eth_getTransactionReceipt tx)]\<rparr>)"
  using assms by (subst waitForReceipt.simps) (simp add: io_defs)

lemma waitForReceipt_fails:
  assumes "eth_getTransactionReceipt R (events w @ [Sleep 2000]) tx = Inl e"
  shows "waitForReceipt R tx w
           = Some (Inl e, w\<lparr>events := events w @ [Sleep 2000, Request (Eth_getTransactionReceipt tx)]\<rparr>)"
  using assms by (subst waitForReceipt.simps) (simp add: io_defs)

lemma waitForReceipt_pending:
  assumes "eth_getTransactionReceipt R (events w @ [Sleep 2000]) tx = Inr None"
  shows "waitForReceipt R tx w
           = waitForReceipt R tx (w\<lparr>events := events w @ [Sleep 2000, Request (Eth_getTransactionReceipt tx)]\<rparr>)"
  using assms by (subst waitForReceipt.simps) (simp add: io_defs)

text \<open>The wait never returns when no poll ever yields a receipt.\<close>

lemma waitForReceipt_never:
  assumes never: "\<And>h. eth_getTransactionReceipt R h tx = Inr None"
  shows "waitForReceipt R tx w = None"
proof (rule ccontr)
  assume "waitForReceipt R tx w \<noteq> None"
  then obtain y where y: "waitForReceipt R tx w = Some y" by auto
  have "R = R \<longrightarrow> tx = tx \<longrightarrow> False"
  proof (rule waitForReceipt.raw_induct
      [where P = "\<lambda>R' tx' w' y. R' = R \<longrightarrow> tx' = tx \<longrightarrow> False", OF _ y])
    fix f R' tx' w' r
    assume IH: "\<And>R'' tx'' w'' y''. f R'' tx'' w'' = Some y'' \<Longrightarrow> R'' = R \<longrightarrow> tx'' = tx \<longrightarrow> False"
      and st: "(case seq (emit (Sleep 2000)) (\<lambda>u. request_receipt R' tx') w' of
          (Inl e, w') \<Rightarrow> Some (Inl e, w')
        | (Inr None, w') \<Rightarrow> f R' tx' w'
        | (Inr (Some r), w') \<Rightarrow> Some (Inr (), w')) = Some r"
    show "R' = R \<longrightarrow> tx' = tx \<longrightarrow> False"
    proof (intro impI)
      assume "R' = R" "tx' = tx"
      with st never have "f R tx (w'\<lparr>events := events w' @ [Sleep 2000, Request (Eth_getTransactionReceipt tx)]\<rparr>) = Some r"
        by (simp add: io_defs)
      from IH [OF this] show False by simp
    qed
  qed
  then show False by simp
qed

text \<open>
  The wait in full: empty polls are skipped one by one; the first poll that answers ends
  the wait, with a receipt or with an error; when every poll is empty the wait never
  returns.
\<close>

lemma wait_skips_empty_polls:
  assumes "empty_polls R (events w) tx n"
  shows "waitForReceipt R tx w = waitForReceipt R tx (w\<lparr>events := events w @ polls n tx\<rparr>)"
  using assms
proof (induction n)
  case 0
  show ?case by simp
next
  case (Suc n)
  then have "waitForReceipt R tx w = waitForReceipt R tx (w\<lparr>events := events w @ polls n tx\<rparr>)"
    by (simp add: empty_polls_def)
  also from Suc.prems
  have "\<dots> = waitForReceipt R tx (w\<lparr>events := events w @ polls (Suc n) tx\<rparr>)"
    by (simp add: waitForReceipt_pending empty_polls_def)
  finally show ?case .
qed

lemma wait_returns:
  assumes "empty_polls R (events w) tx n"
    and "eth_getTransactionReceipt R (events w @ polls n tx @ [Sleep 2000]) tx = Inr (Some r)"
  shows "waitForReceipt R tx w = Some (Inr (), w\<lparr>events := events w @ polls (Suc n) tx\<rparr>)"
  using wait_skips_empty_polls [OF assms(1)] assms(2)
  by (simp add: waitForReceipt_mined)

lemma wait_throws:
  assumes "empty_polls R (events w) tx n"
    and "eth_getTransactionReceipt R (events w @ polls n tx @ [Sleep 2000]) tx = Inl e"
  shows "waitForReceipt R tx w = Some (Inl e, w\<lparr>events := events w @ polls (Suc n) tx\<rparr>)"
  using wait_skips_empty_polls [OF assms(1)] assms(2)
  by (simp add: waitForReceipt_fails)

lemma wait_forever:
  assumes never: "\<And>n. empty_polls R (events w) tx n"
  shows "waitForReceipt R tx w = None"
proof (rule ccontr)
  assume "waitForReceipt R tx w \<noteq> None"
  then obtain y where y: "waitForReceipt R tx w = Some y" by auto
  have "R = R \<and> tx = tx \<and> (\<exists>n. w = w\<lparr>events := events w @ polls n tx\<rparr>) \<longrightarrow> False"
  proof (rule waitForReceipt.raw_induct
      [where P = "\<lambda>R' tx' w' y. R' = R \<and> tx' = tx
            \<and> (\<exists>n. w' = w\<lparr>events := events w @ polls n tx\<rparr>) \<longrightarrow> False", OF _ y])
    fix f R' tx' w' r
    assume IH: "\<And>R'' tx'' w'' y''. f R'' tx'' w'' = Some y''
          \<Longrightarrow> R'' = R \<and> tx'' = tx \<and> (\<exists>n. w'' = w\<lparr>events := events w @ polls n tx\<rparr>) \<longrightarrow> False"
      and st: "(case seq (emit (Sleep 2000)) (\<lambda>u. request_receipt R' tx') w' of
          (Inl e, w') \<Rightarrow> Some (Inl e, w')
        | (Inr None, w') \<Rightarrow> f R' tx' w'
        | (Inr (Some r), w') \<Rightarrow> Some (Inr (), w')) = Some r"
    show "R' = R \<and> tx' = tx \<and> (\<exists>n. w' = w\<lparr>events := events w @ polls n tx\<rparr>) \<longrightarrow> False"
    proof (intro impI, elim conjE exE)
      fix n
      assume eq: "R' = R" "tx' = tx" "w' = w\<lparr>events := events w @ polls n tx\<rparr>"
      from never [of "Suc n"]
      have "eth_getTransactionReceipt R (events w @ polls n tx @ [Sleep 2000]) tx = Inr None"
        by (simp add: empty_polls_def)
      with st eq have "f R tx (w\<lparr>events := events w @ polls (Suc n) tx\<rparr>) = Some r"
        by (simp add: io_defs)
      from IH [OF this] show False by blast
    qed
  qed
  moreover have "w = w\<lparr>events := events w @ polls 0 tx\<rparr>" by simp
  ultimately show False by blast
qed









section \<open>The payment flow\<close>

text \<open>\<^verbatim>\<open>switchNetwork\<close> never throws and sends no transaction.\<close>

lemma switchNetwork_total: "\<exists>w'. switchNetwork R c k w = (Inr (), w')"
proof (cases "account c")
  case None
  then show ?thesis
    by (auto simp: switchNetwork_def io_defs split: sum.splits option.splits prod.splits)
next
  case (Some a)
  show ?thesis
  proof (cases "map_of CHAIN_CONFIG k")
    case None
    then show ?thesis
      by (auto simp: switchNetwork_def io_defs split: sum.splits option.splits prod.splits)
  next
    case cfg: (Some cfg)
    show ?thesis
    proof (cases "wallet_switchEthereumChain R (events w) (chainIdHex cfg)")
      case (Inl e)
      with cfg show ?thesis
        by (auto simp: switchNetwork_def io_defs split: sum.splits option.splits prod.splits)
    next
      case (Inr u)
      let ?w1 = "w\<lparr>events := events w @ [Request (Wallet_switchEthereumChain (chainIdHex cfg))]\<rparr>"
      from getUSDCBalance_frame [of R a k ?w1] obtain b new where
        "getUSDCBalance R a k ?w1 = (Inr b, ?w1\<lparr>events := events ?w1 @ new\<rparr>)" by blast
      with cfg Inr Some show ?thesis
        by (auto simp: switchNetwork_def io_defs split: sum.splits option.splits prod.splits)
    qed
  qed
qed

lemma switchNetwork_frame:
  "\<exists>w'. switchNetwork R c k w = (Inr (), w') \<and> submitted w' = submitted w"
proof -
  from switchNetwork_total [of R c k w] obtain w' where w': "switchNetwork R c k w = (Inr (), w')"
    by blast
  have "sends (events (snd (switchNetwork R c k w))) = sends (events w)"
  proof (cases "map_of CHAIN_CONFIG k")
    case None
    then show ?thesis
      by (auto simp: switchNetwork_def io_defs sends_simps split: sum.splits option.splits prod.splits)
  next
    case (Some cfg)
    let ?w1 = "w\<lparr>events := events w @ [Request (Wallet_switchEthereumChain (chainIdHex cfg))]\<rparr>"
    show ?thesis
    proof (cases "wallet_switchEthereumChain R (events w) (chainIdHex cfg)")
      case (Inl e)
      with Some show ?thesis
        by (auto simp: switchNetwork_def io_defs sends_simps split: sum.splits option.splits prod.splits)
    next
      case (Inr u)
      show ?thesis
      proof (cases "account c = None \<or> account c = Some []")
        case True
        with Some Inr show ?thesis
          by (auto simp: switchNetwork_def io_defs sends_simps split: sum.splits option.splits prod.splits)
      next
        case False
        then obtain a where a: "account c = Some a" "a \<noteq> []" by auto
        from getUSDCBalance_frame [of R a k ?w1] obtain b new where
          g: "getUSDCBalance R a k ?w1 = (Inr b, ?w1\<lparr>events := events ?w1 @ new\<rparr>)" by blast
        from getUSDCBalance_sends [of R a k ?w1] g have "sends new = []"
          by (simp add: sends_simps)
        with Some Inr a g show ?thesis
          by (simp add: switchNetwork_def io_defs sends_simps)
      qed
    qed
  qed
  with w' show ?thesis by (simp add: submitted_def)
qed


text \<open>The steps of a payment, one by one.\<close>

lemma approval_submit_accepted:
  assumes "map_of CHAIN_CONFIG (sourceChain c) = Some src"
  shows "\<exists>w1. approval_submit R c a w
          = (eth_sendTransaction R (events w1) a (usdc src)
               (Str (''0x095ea7b3'' @ padStart (drop 2 (tokenMessenger src)) 64
                      @ padStart (number_toString16 (amountInUnits (amount c))) 64)),
             w1\<lparr>events := events w1 @ [Request (Eth_sendTransaction a (usdc src)
               (Str (''0x095ea7b3'' @ padStart (drop 2 (tokenMessenger src)) 64
                      @ padStart (number_toString16 (amountInUnits (amount c))) 64)))]\<rparr>)"
proof -
  from switchNetwork_total [of R c "sourceChain c" w] obtain w' where
    "switchNetwork R c (sourceChain c) w = (Inr (), w')" by blast
  with assms show ?thesis
    by (intro exI [of _ "w'\<lparr>ui := (ui w')\<lparr>transactionStatus := Some (pending ''Approving USDC...'')\<rparr>\<rparr>"])
      (simp add: approval_submit_def io_defs encode_approve Let_def)
qed

lemma approval_submit_sends:
  assumes "map_of CHAIN_CONFIG (sourceChain c) = Some src"
  shows "\<exists>w1. submitted w1 = submitted w \<and> approval_submit R c a w
          = (eth_sendTransaction R (events w1) a (usdc src)
               (Str (''0x095ea7b3'' @ padStart (drop 2 (tokenMessenger src)) 64
                      @ padStart (number_toString16 (amountInUnits (amount c))) 64)),
             w1\<lparr>events := events w1 @ [Request (Eth_sendTransaction a (usdc src)
               (Str (''0x095ea7b3'' @ padStart (drop 2 (tokenMessenger src)) 64
                      @ padStart (number_toString16 (amountInUnits (amount c))) 64)))]\<rparr>)"
proof -
  from switchNetwork_frame [of R c "sourceChain c" w] obtain w' where
    "switchNetwork R c (sourceChain c) w = (Inr (), w')" "submitted w' = submitted w" by blast
  with assms show ?thesis
    by (intro exI [of _ "w'\<lparr>ui := (ui w')\<lparr>transactionStatus := Some (pending ''Approving USDC...'')\<rparr>\<rparr>"])
      (simp add: approval_submit_def io_defs encode_approve Let_def submitted_def)
qed

lemma payment_reaches_approval_wait:
  assumes src: "map_of CHAIN_CONFIG (sourceChain c) = Some src"
    and sent: "\<And>h f t d. \<exists>tx. eth_sendTransaction R h f t d = Inr tx"
  shows "\<exists>tx1 w1 ad.
      encodeFunctionCall ''approve'' [(''spender'', JStr (tokenMessenger src)),
          (''amount'', JNum (amountInUnits (amount c)))] = Inr ad
    \<and> submitted w1 = submitted w @ [(usdc src, ad)]
    \<and> approval_submit R c a w = (Inr tx1, w1)"
proof -
  let ?ad = "Str (''0x095ea7b3'' @ padStart (drop 2 (tokenMessenger src)) 64
                      @ padStart (number_toString16 (amountInUnits (amount c))) 64)"
  from approval_submit_sends [OF src, of w R a] obtain w1' where
    s1': "submitted w1' = submitted w"
    and a1': "approval_submit R c a w = (eth_sendTransaction R (events w1') a (usdc src) ?ad,
        w1'\<lparr>events := events w1' @ [Request (Eth_sendTransaction a (usdc src) ?ad)]\<rparr>)"
    by blast
  let ?w1 = "w1'\<lparr>events := events w1' @ [Request (Eth_sendTransaction a (usdc src) ?ad)]\<rparr>"
  from sent obtain tx1 where "eth_sendTransaction R (events w1') a (usdc src) ?ad = Inr tx1"
    by blast
  with a1' have a1: "approval_submit R c a w = (Inr tx1, ?w1)" by simp
  from s1' have s1: "submitted ?w1 = submitted w @ [(usdc src, ?ad)]"
    by (simp add: submitted_def sends_simps)
  from a1 s1 show ?thesis
    by (intro exI [of _ tx1] exI [of _ ?w1] exI [of _ ?ad]) (simp add: encode_approve)
qed

lemma caller_calldata_registered:
  assumes "map_of CHAIN_CONFIG (sourceChain c) = Some src"
    and "map_of CHAIN_CONFIG (destinationChain c) = Some dst"
  shows "caller_calldata c = Inr (Str (''0x8c7af8a5''
      @ padStart (number_toString16 (amountInUnits (amount c))) 64
      @ padStart (number_toString16 (Fin (of_nat (domain dst)))) 64
      @ drop 2 (addressToBytes32 (merchantAddress c))
      @ padStart (drop 2 (usdc src)) 64
      @ replicate 64 CHR ''0''))"
  using assms
  by (simp add: caller_calldata_def read_config_def and_then_def encode_caller Let_def
      addressToBytes32_def replicate_numeral)

lemma burn_calldata_standard:
  assumes "selectedHook c = None \<or> \<not> fastTransferEnabled c"
  shows "burn_calldata c = caller_calldata c"
  using assms by (auto simp: burn_calldata_def split: option.splits)

lemma burn_submit_accepted:
  assumes "map_of CHAIN_CONFIG (sourceChain c) = Some src"
    and "burn_calldata c = Inr d"
  shows "burn_submit R c a w
          = (eth_sendTransaction R (events w) a (tokenMessenger src) d,
             w\<lparr>ui := (ui w)\<lparr>transactionStatus := Some (pending
                    (if fastTransferEnabled c then ''Initiating Fast Transfer...''
                     else ''Initiating Standard Transfer...''))\<rparr>,
               events := events w @ [Request (Eth_sendTransaction a (tokenMessenger src) d)]\<rparr>)"
  using assms by (simp add: burn_submit_def io_defs)

lemma burn_submit_throws:
  assumes "burn_calldata c = Inl e"
  shows "burn_submit R c a w
          = (Inl e, w\<lparr>ui := (ui w)\<lparr>transactionStatus := Some (pending
                    (if fastTransferEnabled c then ''Initiating Fast Transfer...''
                     else ''Initiating Standard Transfer...''))\<rparr>\<rparr>)"
  using assms by (simp add: burn_submit_def io_defs)

lemma finish_payment_success:
  assumes "map_of CHAIN_CONFIG (sourceChain c) = Some src"
    and "map_of CHAIN_CONFIG (destinationChain c) = Some dst"
  shows "\<exists>w'. finish_payment R c a burnTx w = (Inr (), w')
     \<and> last_status w' = Some Success \<and> submitted w' = submitted w"
  using assms
  by (auto simp: finish_payment_def io_defs last_status_def submitted_def sends_simps)

lemma payment_reaches_burn_wait:
  assumes src: "map_of CHAIN_CONFIG (sourceChain c) = Some src"
    and dst: "map_of CHAIN_CONFIG (destinationChain c) = Some dst"
    and std: "selectedHook c = None \<or> \<not> fastTransferEnabled c"
    and sent: "\<And>h f t d. \<exists>tx. eth_sendTransaction R h f t d = Inr tx"
    and approved: "\<And>h tx. length (sends h) = Suc (length (submitted w))
        \<Longrightarrow> \<exists>n r. empty_polls R h tx n
              \<and> eth_getTransactionReceipt R (h @ polls n tx @ [Sleep 2000]) tx = Inr (Some r)"
  shows "\<exists>tx2 w3 ad d.
      encodeFunctionCall ''approve'' [(''spender'', JStr (tokenMessenger src)),
          (''amount'', JNum (amountInUnits (amount c)))] = Inr ad
    \<and> caller_calldata c = Inr d
    \<and> submitted w3 = submitted w @ [(usdc src, ad), (tokenMessenger src, d)]
    \<and> payment_try R c a w
        = (case waitForReceipt R tx2 w3 of
             None \<Rightarrow> None
           | Some (Inl e, w4) \<Rightarrow> Some (Inl e, w4)
           | Some (Inr u, w4) \<Rightarrow> Some (finish_payment R c a tx2 w4))"
proof -
  let ?ad = "Str (''0x095ea7b3'' @ padStart (drop 2 (tokenMessenger src)) 64
                      @ padStart (number_toString16 (amountInUnits (amount c))) 64)"
  from approval_submit_sends [OF src, of w R a] obtain w1' where
    s1': "submitted w1' = submitted w"
    and a1': "approval_submit R c a w = (eth_sendTransaction R (events w1') a (usdc src) ?ad,
        w1'\<lparr>events := events w1' @ [Request (Eth_sendTransaction a (usdc src) ?ad)]\<rparr>)"
    by blast
  let ?w1 = "w1'\<lparr>events := events w1' @ [Request (Eth_sendTransaction a (usdc src) ?ad)]\<rparr>"
  from sent obtain tx1 where "eth_sendTransaction R (events w1') a (usdc src) ?ad = Inr tx1"
    by blast
  with a1' have a1: "approval_submit R c a w = (Inr tx1, ?w1)" by simp
  from s1' have s1: "submitted ?w1 = submitted w @ [(usdc src, ?ad)]"
    by (simp add: submitted_def sends_simps)
  then have "length (sends (events ?w1)) = Suc (length (submitted w))"
    by (simp add: submitted_def)
  from approved [OF this, of tx1] obtain n r where
    "empty_polls R (events ?w1) tx1 n"
    "eth_getTransactionReceipt R (events ?w1 @ polls n tx1 @ [Sleep 2000]) tx1 = Inr (Some r)"
    by blast
  then have a2: "waitForReceipt R tx1 ?w1
      = Some (Inr (), ?w1\<lparr>events := events ?w1 @ polls (Suc n) tx1\<rparr>)"
    by (rule wait_returns)
  let ?w2 = "?w1\<lparr>events := events ?w1 @ polls (Suc n) tx1\<rparr>"
  from s1 have s2: "submitted ?w2 = submitted w @ [(usdc src, ?ad)]"
    by (simp add: submitted_def sends_simps sends_polls del: polls.simps)
  from caller_calldata_registered [OF src dst] obtain d where d: "caller_calldata c = Inr d"
    by blast
  with std have bd: "burn_calldata c = Inr d"
    by (simp add: burn_calldata_standard)
  from sent obtain tx2 where "eth_sendTransaction R (events ?w2) a (tokenMessenger src) d = Inr tx2"
    by blast
  with burn_submit_accepted [OF src bd, of R a ?w2] obtain w3 where
    a3: "burn_submit R c a ?w2 = (Inr tx2, w3)"
    and e3: "events w3 = events ?w2 @ [Request (Eth_sendTransaction a (tokenMessenger src) d)]"
    by simp
  from e3 s2 have s3: "submitted w3 = submitted w @ [(usdc src, ?ad), (tokenMessenger src, d)]"
    by (simp add: submitted_def sends_simps del: polls.simps)
  from a1 a2 a3 have "payment_try R c a w
        = (case waitForReceipt R tx2 w3 of
             None \<Rightarrow> None
           | Some (Inl e, w4) \<Rightarrow> Some (Inl e, w4)
           | Some (Inr u, w4) \<Rightarrow> Some (finish_payment R c a tx2 w4))"
    by (simp add: payment_try_def del: polls.simps)
  with d s3 show ?thesis
    by (intro exI [of _ tx2] exI [of _ w3] exI [of _ ?ad] exI [of _ d]) (simp add: encode_approve)
qed

lemma failed_withI:
  "failed_with e (payment_finally (payment_catch (Inl e, w)))"
  by (simp add: failed_with_def payment_finally_def payment_catch_def)

lemma failed_with_status: "failed_with e w \<Longrightarrow> last_status w = Some Error"
  by (simp add: failed_with_def last_status_def)

text \<open>If the wallet accepts the approval and never returns a receipt, the payment never returns.\<close>

lemma payment_diverges:
  assumes acc: "account c = Some a" "a \<noteq> []"
    and src: "map_of CHAIN_CONFIG (sourceChain c) = Some src"
    and sent: "\<And>h f t d. \<exists>tx. eth_sendTransaction R h f t d = Inr tx"
    and never: "\<And>h tx. eth_getTransactionReceipt R h tx = Inr None"
  shows "processPayment R c w = None"
proof -
  let ?w0 = "w\<lparr>ui := (ui w)\<lparr>isProcessing := True,
                 transactionStatus := Some (pending ''Initiating payment...'')\<rparr>\<rparr>"
  from approval_submit_accepted [OF src, of R a ?w0] sent obtain tx w1 where
    "approval_submit R c a ?w0 = (Inr tx, w1)" by metis
  moreover have "waitForReceipt R tx w1 = None"
    by (rule waitForReceipt_never) (rule never)
  ultimately show ?thesis
    using acc by (simp add: processPayment_def payment_try_def)
qed

lemma approval_wait_diverges:
  assumes acc: "account c = Some a" "a \<noteq> []"
    and src: "map_of CHAIN_CONFIG (sourceChain c) = Some src"
    and sent: "\<And>h f t d. \<exists>tx. eth_sendTransaction R h f t d = Inr tx"
    and never: "\<And>h tx. length (sends h) = Suc (length (submitted w))
        \<Longrightarrow> eth_getTransactionReceipt R h tx = Inr None"
  shows "processPayment R c w = None"
proof -
  let ?w0 = "w\<lparr>ui := (ui w)\<lparr>isProcessing := True,
                 transactionStatus := Some (pending ''Initiating payment...'')\<rparr>\<rparr>"
  from payment_reaches_approval_wait [OF src sent, of ?w0 a] obtain tx1 w1 ad where
    s1: "submitted w1 = submitted ?w0 @ [(usdc src, ad)]"
    and a1: "approval_submit R c a ?w0 = (Inr tx1, w1)"
    by blast
  have "empty_polls R (events w1) tx1 n" for n
    unfolding empty_polls_def
  proof (intro allI impI)
    fix i
    from s1 have "length (sends (events w1 @ polls i tx1 @ [Sleep 2000])) = Suc (length (submitted w))"
      by (simp add: submitted_def sends_simps sends_polls)
    then show "eth_getTransactionReceipt R (events w1 @ polls i tx1 @ [Sleep 2000]) tx1 = Inr None"
      by (rule never)
  qed
  then have "waitForReceipt R tx1 w1 = None"
    by (rule wait_forever)
  with acc a1 show ?thesis
    by (simp add: processPayment_def payment_try_def)
qed

lemma approval_wait_throws:
  assumes acc: "account c = Some a" "a \<noteq> []"
    and src: "map_of CHAIN_CONFIG (sourceChain c) = Some src"
    and sent: "\<And>h f t d. \<exists>tx. eth_sendTransaction R h f t d = Inr tx"
    and throws: "\<And>h tx. length (sends h) = Suc (length (submitted w))
        \<Longrightarrow> eth_getTransactionReceipt R h tx = Inl e"
  shows "\<exists>w'. processPayment R c w = Some w' \<and> failed_with e w'"
proof -
  let ?w0 = "w\<lparr>ui := (ui w)\<lparr>isProcessing := True,
                 transactionStatus := Some (pending ''Initiating payment...'')\<rparr>\<rparr>"
  from payment_reaches_approval_wait [OF src sent, of ?w0 a] obtain tx1 w1 ad where
    s1: "submitted w1 = submitted ?w0 @ [(usdc src, ad)]"
    and a1: "approval_submit R c a ?w0 = (Inr tx1, w1)"
    by blast
  from s1 have "length (sends (events w1 @ [Sleep 2000])) = Suc (length (submitted w))"
    by (simp add: submitted_def sends_simps)
  then have "eth_getTransactionReceipt R (events w1 @ [Sleep 2000]) tx1 = Inl e"
    by (rule throws)
  then have "waitForReceipt R tx1 w1
      = Some (Inl e, w1\<lparr>events := events w1 @ [Sleep 2000, Request (Eth_getTransactionReceipt tx1)]\<rparr>)"
    by (rule waitForReceipt_fails)
  with acc a1 have "processPayment R c w = Some (payment_finally (payment_catch
      (Inl e, w1\<lparr>events := events w1 @ [Sleep 2000, Request (Eth_getTransactionReceipt tx1)]\<rparr>)))"
    by (simp add: processPayment_def payment_try_def)
  then show ?thesis
    using failed_withI by metis
qed

lemma burn_wait_diverges:
  assumes acc: "account c = Some a" "a \<noteq> []"
    and src: "map_of CHAIN_CONFIG (sourceChain c) = Some src"
    and dst: "map_of CHAIN_CONFIG (destinationChain c) = Some dst"
    and std: "selectedHook c = None \<or> \<not> fastTransferEnabled c"
    and sent: "\<And>h f t d. \<exists>tx. eth_sendTransaction R h f t d = Inr tx"
    and approved: "\<And>h tx. length (sends h) = Suc (length (submitted w))
        \<Longrightarrow> \<exists>n r. empty_polls R h tx n
              \<and> eth_getTransactionReceipt R (h @ polls n tx @ [Sleep 2000]) tx = Inr (Some r)"
    and never: "\<And>h tx. length (sends h) = Suc (Suc (length (submitted w)))
        \<Longrightarrow> eth_getTransactionReceipt R h tx = Inr None"
  shows "processPayment R c w = None"
proof -
  let ?w0 = "w\<lparr>ui := (ui w)\<lparr>isProcessing := True,
                 transactionStatus := Some (pending ''Initiating payment...'')\<rparr>\<rparr>"
  have approved0: "\<And>h tx. length (sends h) = Suc (length (submitted ?w0))
        \<Longrightarrow> \<exists>n r. empty_polls R h tx n
              \<and> eth_getTransactionReceipt R (h @ polls n tx @ [Sleep 2000]) tx = Inr (Some r)"
    using approved by (simp add: submitted_def)
  from payment_reaches_burn_wait [where w = ?w0 and a = a, OF src dst std sent approved0]
  obtain tx2 w3 ad d where
    s3: "submitted w3 = submitted ?w0 @ [(usdc src, ad), (tokenMessenger src, d)]"
    and p: "payment_try R c a ?w0
        = (case waitForReceipt R tx2 w3 of
             None \<Rightarrow> None
           | Some (Inl e, w4) \<Rightarrow> Some (Inl e, w4)
           | Some (Inr u, w4) \<Rightarrow> Some (finish_payment R c a tx2 w4))"
    by blast
  have "empty_polls R (events w3) tx2 n" for n
    unfolding empty_polls_def
  proof (intro allI impI)
    fix i
    from s3 have "length (sends (events w3 @ polls i tx2 @ [Sleep 2000])) = Suc (Suc (length (submitted w)))"
      by (simp add: submitted_def sends_simps sends_polls)
    then show "eth_getTransactionReceipt R (events w3 @ polls i tx2 @ [Sleep 2000]) tx2 = Inr None"
      by (rule never)
  qed
  then have "waitForReceipt R tx2 w3 = None"
    by (rule wait_forever)
  with acc p show ?thesis
    by (simp add: processPayment_def)
qed

lemma burn_wait_throws:
  assumes acc: "account c = Some a" "a \<noteq> []"
    and src: "map_of CHAIN_CONFIG (sourceChain c) = Some src"
    and dst: "map_of CHAIN_CONFIG (destinationChain c) = Some dst"
    and std: "selectedHook c = None \<or> \<not> fastTransferEnabled c"
    and sent: "\<And>h f t d. \<exists>tx. eth_sendTransaction R h f t d = Inr tx"
    and approved: "\<And>h tx. length (sends h) = Suc (length (submitted w))
        \<Longrightarrow> \<exists>n r. empty_polls R h tx n
              \<and> eth_getTransactionReceipt R (h @ polls n tx @ [Sleep 2000]) tx = Inr (Some r)"
    and throws: "\<And>h tx. length (sends h) = Suc (Suc (length (submitted w)))
        \<Longrightarrow> eth_getTransactionReceipt R h tx = Inl e"
  shows "\<exists>w'. processPayment R c w = Some w' \<and> failed_with e w'"
proof -
  let ?w0 = "w\<lparr>ui := (ui w)\<lparr>isProcessing := True,
                 transactionStatus := Some (pending ''Initiating payment...'')\<rparr>\<rparr>"
  have approved0: "\<And>h tx. length (sends h) = Suc (length (submitted ?w0))
        \<Longrightarrow> \<exists>n r. empty_polls R h tx n
              \<and> eth_getTransactionReceipt R (h @ polls n tx @ [Sleep 2000]) tx = Inr (Some r)"
    using approved by (simp add: submitted_def)
  from payment_reaches_burn_wait [where w = ?w0 and a = a, OF src dst std sent approved0]
  obtain tx2 w3 ad d where
    s3: "submitted w3 = submitted ?w0 @ [(usdc src, ad), (tokenMessenger src, d)]"
    and p: "payment_try R c a ?w0
        = (case waitForReceipt R tx2 w3 of
             None \<Rightarrow> None
           | Some (Inl e, w4) \<Rightarrow> Some (Inl e, w4)
           | Some (Inr u, w4) \<Rightarrow> Some (finish_payment R c a tx2 w4))"
    by blast
  from s3 have "length (sends (events w3 @ [Sleep 2000])) = Suc (Suc (length (submitted w)))"
    by (simp add: submitted_def sends_simps)
  then have "eth_getTransactionReceipt R (events w3 @ [Sleep 2000]) tx2 = Inl e"
    by (rule throws)
  then have "waitForReceipt R tx2 w3
      = Some (Inl e, w3\<lparr>events := events w3 @ [Sleep 2000, Request (Eth_getTransactionReceipt tx2)]\<rparr>)"
    by (rule waitForReceipt_fails)
  with acc p have "processPayment R c w = Some (payment_finally (payment_catch
      (Inl e, w3\<lparr>events := events w3 @ [Sleep 2000, Request (Eth_getTransactionReceipt tx2)]\<rparr>)))"
    by (simp add: processPayment_def)
  then show ?thesis
    using failed_withI by metis
qed


text \<open>
  When the wallet accepts both transactions and each wait gets a receipt in the end, of
  whatever status, a payment without the hook encoding submits the approval, then the burn,
  and ends in the success status.
\<close>

lemma payment_succeeds_eventually:
  assumes acc: "account c = Some a" "a \<noteq> []"
    and src: "map_of CHAIN_CONFIG (sourceChain c) = Some src"
    and dst: "map_of CHAIN_CONFIG (destinationChain c) = Some dst"
    and std: "selectedHook c = None \<or> \<not> fastTransferEnabled c"
    and sent: "\<And>h f t d. \<exists>tx. eth_sendTransaction R h f t d = Inr tx"
    and mined: "\<And>h tx. \<exists>n r. empty_polls R h tx n
              \<and> eth_getTransactionReceipt R (h @ polls n tx @ [Sleep 2000]) tx = Inr (Some r)"
  shows "\<exists>w' ad d. processPayment R c w = Some w' \<and> last_status w' = Some Success
      \<and> \<not> isProcessing (ui w')
      \<and> encodeFunctionCall ''approve'' [(''spender'', JStr (tokenMessenger src)),
            (''amount'', JNum (amountInUnits (amount c)))] = Inr ad
      \<and> caller_calldata c = Inr d
      \<and> submitted w' = submitted w @ [(usdc src, ad), (tokenMessenger src, d)]"
proof -
  let ?w0 = "w\<lparr>ui := (ui w)\<lparr>isProcessing := True,
                 transactionStatus := Some (pending ''Initiating payment...'')\<rparr>\<rparr>"
  from payment_reaches_burn_wait [where w = ?w0 and a = a, OF src dst std sent mined]
  obtain tx2 w3 ad d where
    ad: "encodeFunctionCall ''approve'' [(''spender'', JStr (tokenMessenger src)),
          (''amount'', JNum (amountInUnits (amount c)))] = Inr ad"
    and d: "caller_calldata c = Inr d"
    and s3: "submitted w3 = submitted ?w0 @ [(usdc src, ad), (tokenMessenger src, d)]"
    and p: "payment_try R c a ?w0
        = (case waitForReceipt R tx2 w3 of
             None \<Rightarrow> None
           | Some (Inl e, w4) \<Rightarrow> Some (Inl e, w4)
           | Some (Inr u, w4) \<Rightarrow> Some (finish_payment R c a tx2 w4))"
    by blast
  from mined [of "events w3" tx2] obtain n r where
    "empty_polls R (events w3) tx2 n"
    "eth_getTransactionReceipt R (events w3 @ polls n tx2 @ [Sleep 2000]) tx2 = Inr (Some r)"
    by blast
  then have a4: "waitForReceipt R tx2 w3 = Some (Inr (), w3\<lparr>events := events w3 @ polls (Suc n) tx2\<rparr>)"
    by (rule wait_returns)
  let ?w4 = "w3\<lparr>events := events w3 @ polls (Suc n) tx2\<rparr>"
  from s3 have s4: "submitted ?w4 = submitted w @ [(usdc src, ad), (tokenMessenger src, d)]"
    by (simp add: submitted_def sends_simps sends_polls del: polls.simps)
  from finish_payment_success [OF src dst, of R a tx2 ?w4] obtain w5 where
    a5: "finish_payment R c a tx2 ?w4 = (Inr (), w5)" and l5: "last_status w5 = Some Success"
    and s5: "submitted w5 = submitted ?w4"
    by blast
  from acc p a4 a5 have "processPayment R c w = Some (payment_finally w5)"
    by (simp add: processPayment_def payment_catch_def del: polls.simps)
  moreover from l5 have "last_status (payment_finally w5) = Some Success"
    by (simp add: payment_finally_def last_status_def)
  moreover have "\<not> isProcessing (ui (payment_finally w5))"
    by (simp add: payment_finally_def)
  moreover from s4 s5 have "submitted (payment_finally w5)
      = submitted w @ [(usdc src, ad), (tokenMessenger src, d)]"
    by (simp add: payment_finally_def submitted_def)
  ultimately show ?thesis using ad d by blast
qed

lemma payment_succeeds_mined:
  assumes acc: "account c = Some a" "a \<noteq> []"
    and src: "map_of CHAIN_CONFIG (sourceChain c) = Some src"
    and dst: "map_of CHAIN_CONFIG (destinationChain c) = Some dst"
    and std: "selectedHook c = None \<or> \<not> fastTransferEnabled c"
    and sent: "\<And>h f t d. \<exists>tx. eth_sendTransaction R h f t d = Inr tx"
    and mined: "\<And>h tx. \<exists>r. eth_getTransactionReceipt R h tx = Inr (Some r)"
  shows "\<exists>w' ad d. processPayment R c w = Some w' \<and> last_status w' = Some Success
      \<and> \<not> isProcessing (ui w')
      \<and> encodeFunctionCall ''approve'' [(''spender'', JStr (tokenMessenger src)),
            (''amount'', JNum (amountInUnits (amount c)))] = Inr ad
      \<and> caller_calldata c = Inr d
      \<and> submitted w' = submitted w @ [(usdc src, ad), (tokenMessenger src, d)]"
proof (rule payment_succeeds_eventually [OF acc src dst std sent])
  fix h tx
  from mined [of "h @ [Sleep 2000]" tx] obtain r where
    "eth_getTransactionReceipt R (h @ polls 0 tx @ [Sleep 2000]) tx = Inr (Some r)"
    by auto
  moreover have "empty_polls R h tx 0"
    by (simp add: empty_polls_def)
  ultimately show "\<exists>n r. empty_polls R h tx n
      \<and> eth_getTransactionReceipt R (h @ polls n tx @ [Sleep 2000]) tx = Inr (Some r)"
    by blast
qed



text \<open>
  With a hook in fast mode the encoder of the burn throws on every registered route, so the
  payment ends in the error status after the approval.
\<close>

lemma hook_calldata_throws:
  assumes "map_of CHAIN_CONFIG (sourceChain c) = Some src"
    and "map_of CHAIN_CONFIG (destinationChain c) = Some dst"
  shows "hook_calldata c h = Inl (TypeError ''hex.padStart is not a function'')"
  using assms
  by (cases h)
    (simp_all add: hook_calldata_def read_config_def and_then_def encodeFunctionCall_def
      signature_of_def functionSignatures_def getProp_def padded_def js_slice2_def
      js_toString16_def padHex_def js_plus_def hook_length_word_def js_length_def
      HOOK_TEMPLATES_def)

lemma payment_encoding_throws:
  assumes acc: "account c = Some a" "a \<noteq> []"
    and src: "map_of CHAIN_CONFIG (sourceChain c) = Some src"
    and dst: "map_of CHAIN_CONFIG (destinationChain c) = Some dst"
    and hook: "selectedHook c = Some h" "fastTransferEnabled c"
    and sent: "\<And>h f t d. \<exists>tx. eth_sendTransaction R h f t d = Inr tx"
    and mined: "\<And>h tx. \<exists>n r. empty_polls R h tx n
              \<and> eth_getTransactionReceipt R (h @ polls n tx @ [Sleep 2000]) tx = Inr (Some r)"
  shows "\<exists>w' ad. processPayment R c w = Some w'
     \<and> transactionStatus (ui w') = Some \<lparr>status = Error,
          message = ''Payment failed: hex.padStart is not a function'', details = None\<rparr>
     \<and> \<not> isProcessing (ui w')
     \<and> last (events w') = ConsoleError ''Payment error:'' (TypeError ''hex.padStart is not a function'')
     \<and> encodeFunctionCall ''approve'' [(''spender'', JStr (tokenMessenger src)),
            (''amount'', JNum (amountInUnits (amount c)))] = Inr ad
     \<and> submitted w' = submitted w @ [(usdc src, ad)]"
proof -
  let ?w0 = "w\<lparr>ui := (ui w)\<lparr>isProcessing := True,
                 transactionStatus := Some (pending ''Initiating payment...'')\<rparr>\<rparr>"
  let ?ad = "Str (''0x095ea7b3'' @ padStart (drop 2 (tokenMessenger src)) 64
                      @ padStart (number_toString16 (amountInUnits (amount c))) 64)"
  from approval_submit_sends [OF src, of ?w0 R a] obtain w1' where
    s1': "submitted w1' = submitted ?w0"
    and a1': "approval_submit R c a ?w0 = (eth_sendTransaction R (events w1') a (usdc src) ?ad,
        w1'\<lparr>events := events w1' @ [Request (Eth_sendTransaction a (usdc src) ?ad)]\<rparr>)"
    by blast
  let ?w1 = "w1'\<lparr>events := events w1' @ [Request (Eth_sendTransaction a (usdc src) ?ad)]\<rparr>"
  from sent obtain tx1 where "eth_sendTransaction R (events w1') a (usdc src) ?ad = Inr tx1"
    by blast
  with a1' have a1: "approval_submit R c a ?w0 = (Inr tx1, ?w1)" by simp
  from s1' have s1: "submitted ?w1 = submitted w @ [(usdc src, ?ad)]"
    by (simp add: submitted_def sends_simps)
  from mined [of "events ?w1" tx1] obtain n r where
    "empty_polls R (events ?w1) tx1 n"
    "eth_getTransactionReceipt R (events ?w1 @ polls n tx1 @ [Sleep 2000]) tx1 = Inr (Some r)"
    by blast
  then have a2: "waitForReceipt R tx1 ?w1
      = Some (Inr (), ?w1\<lparr>events := events ?w1 @ polls (Suc n) tx1\<rparr>)"
    by (rule wait_returns)
  let ?w2 = "?w1\<lparr>events := events ?w1 @ polls (Suc n) tx1\<rparr>"
  from s1 have s2: "submitted ?w2 = submitted w @ [(usdc src, ?ad)]"
    by (simp add: submitted_def sends_simps sends_polls del: polls.simps)
  from hook hook_calldata_throws [OF src dst, of h]
  have "burn_calldata c = Inl (TypeError ''hex.padStart is not a function'')"
    by (simp add: burn_calldata_def)
  from burn_submit_throws [OF this, of R a ?w2] obtain w3 where
    a3: "burn_submit R c a ?w2 = (Inl (TypeError ''hex.padStart is not a function''), w3)"
    and e3: "events w3 = events ?w2"
    by simp
  from e3 s2 have s3: "submitted w3 = submitted w @ [(usdc src, ?ad)]"
    by (simp add: submitted_def)
  from acc a1 a2 a3 have "processPayment R c w
      = Some (payment_finally (payment_catch (Inl (TypeError ''hex.padStart is not a function''), w3)))"
    by (simp add: processPayment_def payment_try_def del: polls.simps)
  with s3 show ?thesis
    by (intro exI [of _ "payment_finally (payment_catch
          (Inl (TypeError ''hex.padStart is not a function''), w3))"] exI [of _ ?ad])
      (simp add: payment_catch_def payment_finally_def error_message_def submitted_def
        sends_simps encode_approve)
qed

text \<open>A rounded number has the sign of the exact one; the guards of the page.\<close>

lemma pow2_pos: "0 < pow2 k"
  by (simp add: pow2_def)

lemma round_half_even_nonneg: "0 \<le> y \<Longrightarrow> 0 \<le> round_half_even y"
  by (simp add: round_half_even_def Let_def)

lemma fl_pos_nonneg: "0 < x \<Longrightarrow> fl_pos x = PosInf \<or> (\<exists>r. fl_pos x = Fin r \<and> 0 \<le> r)"
  by (simp add: fl_pos_def Let_def round_half_even_nonneg pow2_pos less_imp_le)

lemma fl_nonpos: "x \<le> 0 \<Longrightarrow> num_le (fl x) (Fin 0)"
  using fl_pos_nonneg [of "- x"]
  by (auto simp: fl_def num_le_def neg_def)

lemma button_disabled_nonpositive:
  assumes "amount_value (amount c) = Some v" "v \<le> 0"
  shows "payButtonDisabled c"
proof -
  from assms(1) have "parseFloat (amount c) = fl v"
    by (auto simp: amount_value_def parseFloat_def split: option.splits prod.splits)
  with assms(2) show ?thesis
    by (simp add: payButtonDisabled_def fl_nonpos)
qed

lemma button_disabled_empty:
  assumes "amount c = []"
  shows "payButtonDisabled c"
  using assms by (simp add: payButtonDisabled_def)

lemma round_half_even_ge: "1 \<le> y \<Longrightarrow> 1 \<le> round_half_even y"
proof -
  assume "1 \<le> y"
  then have "1 \<le> \<lfloor>y\<rfloor>" by simp
  then show ?thesis
    by (simp add: round_half_even_def Let_def)
qed

lemma pow2_ilog2_le:
  assumes "1 \<le> x"
  shows "0 \<le> ilog2 x" "pow2 (ilog2 x) \<le> x"
proof -
  from assms have pos: "0 < \<lfloor>x\<rfloor>" by simp
  from bitlen_bounds [OF pos] have b: "2 ^ nat (bitlen \<lfloor>x\<rfloor> - 1) \<le> \<lfloor>x\<rfloor>" by simp
  have "1 \<le> bitlen \<lfloor>x\<rfloor>"
  proof (rule ccontr)
    assume "\<not> 1 \<le> bitlen \<lfloor>x\<rfloor>"
    then have "nat (bitlen \<lfloor>x\<rfloor>) = 0" by simp
    with bitlen_bounds [OF pos] pos show False by auto
  qed
  with assms show "0 \<le> ilog2 x"
    by (simp add: ilog2_def)
  with assms have "pow2 (ilog2 x) = of_int (2 ^ nat (bitlen \<lfloor>x\<rfloor> - 1))"
    by (simp add: ilog2_def pow2_def)
  also from b have "\<dots> \<le> of_int \<lfloor>x\<rfloor>"
    by (simp only: of_int_le_iff)
  also have "\<dots> \<le> x" by simp
  finally show "pow2 (ilog2 x) \<le> x" .
qed

lemma fl_pos_positive:
  assumes "1 \<le> x"
  shows "fl_pos x = PosInf \<or> (\<exists>r. fl_pos x = Fin r \<and> 0 < r)"
proof -
  let ?e = "ilog2 x"
  from pow2_ilog2_le [OF assms] have e: "0 \<le> ?e" and le: "pow2 ?e \<le> x" by simp_all
  have "pow2 (?e - 52) \<le> pow2 ?e"
  proof (cases "52 \<le> ?e")
    case True
    then have "(2::rat) ^ nat (?e - 52) \<le> 2 ^ nat ?e"
      by (intro power_increasing) simp_all
    with True e show ?thesis by (simp add: pow2_def)
  next
    case False
    have "1 / (2::rat) ^ nat (52 - ?e) \<le> 1" by simp
    also have "\<dots> \<le> 2 ^ nat ?e" by simp
    finally show ?thesis using False e by (simp add: pow2_def)
  qed
  with le have "pow2 (?e - 52) \<le> x" by simp
  then have "1 \<le> x / pow2 (?e - 52)"
    by (simp add: pow2_pos pos_le_divide_eq)
  then have "1 \<le> round_half_even (x / pow2 (?e - 52))"
    by (rule round_half_even_ge)
  with e show ?thesis
    by (simp add: fl_pos_def Let_def max_def pow2_pos)
qed

lemma button_enabled:
  assumes "account c = Some a" "a \<noteq> []" "\<not> isProcessing c"
    and "amount_value (amount c) = Some v" "1 \<le> v"
  shows "\<not> payButtonDisabled c"
proof -
  from assms(4) have p: "parseFloat (amount c) = fl v" and ne: "amount c \<noteq> []"
    by (auto simp: amount_value_def parseFloat_def decimal_prefix_def split: option.splits prod.splits)
  from assms(5) fl_pos_positive [of v] have "\<not> num_le (fl v) (Fin 0)"
    by (auto simp: fl_def num_le_def)
  with assms p ne show ?thesis
    by (simp add: payButtonDisabled_def)
qed

lemma amount_value_100: "amount_value ''100'' = Some 100"
  by (simp add: amount_value_def parse_eval)

lemma payment_without_account:
  assumes "account c = None \<or> account c = Some []"
  shows "processPayment R c w = Some (w\<lparr>events := events w @ [Alert ''Please connect your wallet first'']\<rparr>)"
  using assms by (auto simp: processPayment_def)

lemma amount_value_minus: "amount_value ''-2.5'' = Some (- 5 / 2)"
  by (simp add: amount_value_def parse_eval)

lemma selectDestination_sets:
  "k \<noteq> sourceChain c \<Longrightarrow> selectDestination k c = c\<lparr>destinationChain := k\<rparr>"
  "k = sourceChain c \<Longrightarrow> selectDestination k c = c"
  by (simp_all add: selectDestination_def destinationButtonDisabled_def)

lemma selectDestination_keeps_route:
  assumes "destinationChain c \<noteq> sourceChain c"
  shows "destinationChain (selectDestination k c) \<noteq> sourceChain (selectDestination k c)"
  using assms by (simp add: selectDestination_def destinationButtonDisabled_def)

text \<open>
  The source buttons have no such guard: on the first page, choosing Arbitrum as the source
  makes source and destination equal.
\<close>

lemma selectSource_unguarded:
  "destinationChain (selectSource 42161 initial_state) = sourceChain (selectSource 42161 initial_state)"
  by (simp add: selectSource_def initial_state_def)

text \<open>The wallets and the page of the scenarios.\<close>

lemma cooperative_accepts:
  "\<exists>tx. eth_sendTransaction cooperative h f t d = Inr tx"
  "\<exists>tx. eth_sendTransaction never_mined h f t d = Inr tx"
  "\<exists>tx. eth_sendTransaction poll_rejects h f t d = Inr tx"
  "\<exists>tx. eth_sendTransaction burn_never_mined h f t d = Inr tx"
  "\<exists>tx. eth_sendTransaction burn_poll_rejects h f t d = Inr tx"
  "\<exists>tx. eth_sendTransaction slow_reverted h f t d = Inr tx"
  by (simp_all add: cooperative_def never_mined_def poll_rejects_def burn_never_mined_def
      burn_poll_rejects_def slow_reverted_def)

lemma approval_mined_at_once:
  assumes "length (sends h) = Suc 0"
  shows "\<exists>n r. empty_polls burn_never_mined h tx n
      \<and> eth_getTransactionReceipt burn_never_mined (h @ polls n tx @ [Sleep 2000]) tx = Inr (Some r)"
    and "\<exists>n r. empty_polls burn_poll_rejects h tx n
      \<and> eth_getTransactionReceipt burn_poll_rejects (h @ polls n tx @ [Sleep 2000]) tx = Inr (Some r)"
  using assms
  by (auto intro!: exI [of _ 0] simp: empty_polls_def burn_never_mined_def burn_poll_rejects_def sends_simps)


lemma standard_state_facts:
  "account standard_state = Some ''0x1111111111111111111111111111111111111111''"
  "map_of CHAIN_CONFIG (sourceChain standard_state) = Some (the (map_of CHAIN_CONFIG 1))"
  "map_of CHAIN_CONFIG (destinationChain standard_state) = Some (the (map_of CHAIN_CONFIG 42161))"
  "selectedHook standard_state = None \<or> \<not> fastTransferEnabled standard_state"
  "submitted (start standard_state) = []"
  "events (start standard_state) = []"
  by (simp_all add: standard_state_def initial_state_def CHAIN_CONFIG_def submitted_def start_def sends_simps)


subsection \<open>The wait for a receipt has no bound\<close>

text \<open>
  C2. The claim: when \<^verbatim>\<open>getTransactionReceipt\<close> never returns a receipt, the transfer
  ends in the failed state after a timeout. The loop of the code has no timeout: with a
  wallet that accepts the approval and never has it mined, \<^verbatim>\<open>processPayment\<close> never
  returns, so it never reaches the error status.
\<close>

theorem never_mined_counterexample:
  "processPayment never_mined initial_state (start initial_state) = None"
  by (rule payment_diverges [where a = "''0x1111111111111111111111111111111111111111''"
        and src = "the (map_of CHAIN_CONFIG 1)"])
    (simp_all add: scenario_defs CHAIN_CONFIG_def)

text \<open>
  C2, amended. For the approval and for the burn, the wait has no bound and no timeout.
  It waits two seconds, polls, and repeats while the answer is empty: after any number of
  empty polls it ends at the first poll that returns a receipt (the flow goes on) or that
  throws (the wait ends with that error), and when every poll is empty it never returns. So
  a payment never returns, and never reaches the error status, when its approval was
  accepted and is never mined, and when its approval was mined and its burn, in the
  encoding without a hook, was accepted and is never mined. When the polls of the approval
  or of the burn throw, \<^verbatim>\<open>processPayment\<close> catches the error: a line on the console, the
  error status with the message of the error, the end of processing.
\<close>

theorem receipt_wait_is_unbounded:
  "(empty_polls R (events w) tx n
      \<and> eth_getTransactionReceipt R (events w @ polls n tx @ [Sleep 2000]) tx = Inr (Some r)
     \<longrightarrow> waitForReceipt R tx w = Some (Inr (), w\<lparr>events := events w @ polls (Suc n) tx\<rparr>))
   \<and> (empty_polls R (events w) tx n
      \<and> eth_getTransactionReceipt R (events w @ polls n tx @ [Sleep 2000]) tx = Inl e
     \<longrightarrow> waitForReceipt R tx w = Some (Inl e, w\<lparr>events := events w @ polls (Suc n) tx\<rparr>))
   \<and> ((\<forall>n. empty_polls R (events w) tx n) \<longrightarrow> waitForReceipt R tx w = None)
   \<and> (account c = Some a \<and> a \<noteq> [] \<and> map_of CHAIN_CONFIG (sourceChain c) = Some src
       \<and> (\<forall>h f t d. \<exists>tx. eth_sendTransaction R h f t d = Inr tx)
      \<longrightarrow> ((\<forall>h tx. length (sends h) = Suc (length (submitted w))
                \<longrightarrow> eth_getTransactionReceipt R h tx = Inr None)
            \<longrightarrow> processPayment R c w = None)
        \<and> ((\<forall>h tx. length (sends h) = Suc (length (submitted w))
                \<longrightarrow> eth_getTransactionReceipt R h tx = Inl e)
            \<longrightarrow> (\<exists>w'. processPayment R c w = Some w' \<and> failed_with e w'))
        \<and> (map_of CHAIN_CONFIG (destinationChain c) = Some dst
            \<and> (selectedHook c = None \<or> \<not> fastTransferEnabled c)
            \<and> (\<forall>h tx. length (sends h) = Suc (length (submitted w))
                  \<longrightarrow> (\<exists>n r. empty_polls R h tx n
                        \<and> eth_getTransactionReceipt R (h @ polls n tx @ [Sleep 2000]) tx = Inr (Some r)))
           \<longrightarrow> ((\<forall>h tx. length (sends h) = Suc (Suc (length (submitted w)))
                     \<longrightarrow> eth_getTransactionReceipt R h tx = Inr None)
                 \<longrightarrow> processPayment R c w = None)
             \<and> ((\<forall>h tx. length (sends h) = Suc (Suc (length (submitted w)))
                     \<longrightarrow> eth_getTransactionReceipt R h tx = Inl e)
                 \<longrightarrow> (\<exists>w'. processPayment R c w = Some w' \<and> failed_with e w'))))"
proof (intro conjI impI; (elim conjE)?)
  show "waitForReceipt R tx w = Some (Inr (), w\<lparr>events := events w @ polls (Suc n) tx\<rparr>)"
    if "empty_polls R (events w) tx n"
      "eth_getTransactionReceipt R (events w @ polls n tx @ [Sleep 2000]) tx = Inr (Some r)"
    using that by (rule wait_returns)
  show "waitForReceipt R tx w = Some (Inl e, w\<lparr>events := events w @ polls (Suc n) tx\<rparr>)"
    if "empty_polls R (events w) tx n"
      "eth_getTransactionReceipt R (events w @ polls n tx @ [Sleep 2000]) tx = Inl e"
    using that by (rule wait_throws)
  show "waitForReceipt R tx w = None" if "\<forall>n. empty_polls R (events w) tx n"
    using that by (intro wait_forever) simp
next
  assume acc: "account c = Some a" "a \<noteq> []"
    and src: "map_of CHAIN_CONFIG (sourceChain c) = Some src"
    and sent: "\<forall>h f t d. \<exists>tx. eth_sendTransaction R h f t d = Inr tx"
  {
    assume "\<forall>h tx. length (sends h) = Suc (length (submitted w))
                \<longrightarrow> eth_getTransactionReceipt R h tx = Inr None"
    with acc src sent show "processPayment R c w = None"
      by (intro approval_wait_diverges [of c a src R w]) simp_all
  }
  {
    assume "\<forall>h tx. length (sends h) = Suc (length (submitted w))
                \<longrightarrow> eth_getTransactionReceipt R h tx = Inl e"
    with acc src sent show "\<exists>w'. processPayment R c w = Some w' \<and> failed_with e w'"
      by (intro approval_wait_throws [of c a src R w e]) simp_all
  }
  assume dst: "map_of CHAIN_CONFIG (destinationChain c) = Some dst"
    and std: "selectedHook c = None \<or> \<not> fastTransferEnabled c"
    and approved: "\<forall>h tx. length (sends h) = Suc (length (submitted w))
                  \<longrightarrow> (\<exists>n r. empty_polls R h tx n
                        \<and> eth_getTransactionReceipt R (h @ polls n tx @ [Sleep 2000]) tx = Inr (Some r))"
  {
    assume "\<forall>h tx. length (sends h) = Suc (Suc (length (submitted w)))
                     \<longrightarrow> eth_getTransactionReceipt R h tx = Inr None"
    with acc src dst std sent approved show "processPayment R c w = None"
      by (intro burn_wait_diverges [of c a src dst R w]) simp_all
  }
  {
    assume "\<forall>h tx. length (sends h) = Suc (Suc (length (submitted w)))
                     \<longrightarrow> eth_getTransactionReceipt R h tx = Inl e"
    with acc src dst std sent approved show "\<exists>w'. processPayment R c w = Some w' \<and> failed_with e w'"
      by (intro burn_wait_throws [of c a src dst R w e]) simp_all
  }
qed

theorem receipt_wait_is_unbounded_witness:
  "processPayment never_mined standard_state (start standard_state) = None
   \<and> processPayment burn_never_mined standard_state (start standard_state) = None
   \<and> map_option last_status (processPayment poll_rejects standard_state (start standard_state))
       = Some (Some Error)
   \<and> map_option last_status (processPayment burn_poll_rejects standard_state (start standard_state))
       = Some (Some Error)
   \<and> waitForReceipt never_mined ''0x7a'' (start standard_state) = None
   \<and> waitForReceipt slow_reverted ''0x7a'' (start standard_state)
       = Some (Inr (), (start standard_state)\<lparr>events :=
            [Sleep 2000, Request (Eth_getTransactionReceipt ''0x7a''),
             Sleep 2000, Request (Eth_getTransactionReceipt ''0x7a'')]\<rparr>)
   \<and> waitForReceipt poll_rejects ''0x7a'' (start standard_state)
       = Some (Inl (ProviderError (Some (- 32603)) ''Internal JSON-RPC error''),
           (start standard_state)\<lparr>events :=
            [Sleep 2000, Request (Eth_getTransactionReceipt ''0x7a'')]\<rparr>)"
proof -
  let ?a = "''0x1111111111111111111111111111111111111111''"
  let ?src = "the (map_of CHAIN_CONFIG 1)"
  let ?dst = "the (map_of CHAIN_CONFIG 42161)"
  let ?e = "ProviderError (Some (- 32603)) ''Internal JSON-RPC error''"
  let ?w = "start standard_state"
  note facts = standard_state_facts cooperative_accepts
  let ?r = "\<lparr>transactionHash = ''0x7a'', receipt_status = ''0x0''\<rparr>"
  note at = receipt_wait_is_unbounded [where w = ?w and tx = "''0x7a''"
        and c = standard_state and a = ?a and src = ?src and dst = ?dst and e = ?e and r = ?r]
  have 1: "processPayment never_mined standard_state ?w = None"
    using at [where R = never_mined and n = 0, THEN conjunct2, THEN conjunct2, THEN conjunct2]
    by (simp add: facts never_mined_def)
  have 2: "waitForReceipt never_mined ''0x7a'' ?w = None"
    using at [where R = never_mined and n = 0, THEN conjunct2, THEN conjunct2, THEN conjunct1]
    by (simp add: never_mined_def empty_polls_def)
  have 3: "processPayment burn_never_mined standard_state ?w = None"
    using at [where R = burn_never_mined and n = 0, THEN conjunct2, THEN conjunct2, THEN conjunct2] approval_mined_at_once(1)
    by (simp add: facts burn_never_mined_def)
  have "\<exists>w'. processPayment poll_rejects standard_state ?w = Some w' \<and> failed_with ?e w'"
    using at [where R = poll_rejects and n = 0, THEN conjunct2, THEN conjunct2, THEN conjunct2]
    by (simp add: facts poll_rejects_def)
  then have 4: "map_option last_status (processPayment poll_rejects standard_state ?w)
      = Some (Some Error)"
    by (auto simp: failed_with_status)
  have "\<exists>w'. processPayment burn_poll_rejects standard_state ?w = Some w' \<and> failed_with ?e w'"
    using at [where R = burn_poll_rejects and n = 0, THEN conjunct2, THEN conjunct2, THEN conjunct2] approval_mined_at_once(2)
    by (simp add: facts burn_poll_rejects_def)
  then have 5: "map_option last_status (processPayment burn_poll_rejects standard_state ?w)
      = Some (Some Error)"
    by (auto simp: failed_with_status)
  have 6: "waitForReceipt slow_reverted ''0x7a'' ?w
       = Some (Inr (), ?w\<lparr>events :=
            [Sleep 2000, Request (Eth_getTransactionReceipt ''0x7a''),
             Sleep 2000, Request (Eth_getTransactionReceipt ''0x7a'')]\<rparr>)"
    using at [where R = slow_reverted and n = "Suc 0", THEN conjunct1]
    by (simp add: facts slow_reverted_def empty_polls_def)
  have 7: "waitForReceipt poll_rejects ''0x7a'' ?w
       = Some (Inl ?e, ?w\<lparr>events := [Sleep 2000, Request (Eth_getTransactionReceipt ''0x7a'')]\<rparr>)"
    using at [where R = poll_rejects and n = 0, THEN conjunct2, THEN conjunct1]
    by (simp add: facts poll_rejects_def empty_polls_def)
  from 1 2 3 4 5 6 7 show ?thesis by simp
qed

subsection \<open>The encoding of the burn\<close>

text \<open>
  C3. The claim: with a hook selected in fast mode, \<^verbatim>\<open>depositForBurnWithHook\<close> is
  submitted with the hook's data. The code takes that branch and the encoder throws (see
  C1): in the end-to-end scenario of the specification the approval is the only transaction
  submitted and the payment ends in the error status.
\<close>

theorem hook_payment_never_burns:
  "map_option (\<lambda>w. (last_status w, submitted w))
      (processPayment cooperative spec_scenario_state (start spec_scenario_state))
   = Some (Some Error,
       [(''0xA0b86991c6218b36c1d19D4a2e9Eb0cE3606eB48'',
         Str ''0x095ea7b3000000000000000000000000Bd3fa81B58Ba92a82136038B25aDec7066af31550000000000000000000000000000000000000000000000000000000000989680'')])"
  by (simp add: flow_defs io_defs enc_defs parse_defs scenario_defs amountInUnits_10
      waitForReceipt_mined)

subsection \<open>What is checked before a payment starts\<close>

text \<open>
  C4. The claim: a request with a malformed recipient (or a source equal to the
  destination, or an amount that is not positive) fails with \<^verbatim>\<open>InvalidRequest\<close>
  before any chain interaction. The code never looks at the recipient: from Ethereum to
  Arbitrum with the recipient \<^verbatim>\<open>merchant\<close>, the button that starts the payment is
  enabled, the approval and the burn are both submitted and the payment ends in the
  success status.
\<close>

theorem invalid_request_counterexample:
  "\<not> payButtonDisabled malformed_recipient_state
   \<and> map_option (\<lambda>w. (last_status w, length (submitted w)))
        (processPayment cooperative malformed_recipient_state (start malformed_recipient_state))
     = Some (Some Success, 2)"
  by (simp add: flow_defs io_defs enc_defs parse_defs scenario_defs amountInUnits_100
      waitForReceipt_mined payButtonDisabled_def num_le_def parseFloat_100)

text \<open>
  C4, amended. Without a connected account \<^verbatim>\<open>processPayment\<close> shows an alert and
  returns before any request to the wallet. An amount that is empty, or a number that is
  zero or negative, is kept out by the page, which disables the button that starts the
  payment (with an account connected and no payment in progress, an amount of at least 1
  leaves it enabled). Choosing a destination sets it, except that the destination button
  of the source chain is disabled, so that choosing a destination cannot make it equal to
  the source. The recipient is not validated: with a connected account, registered chains,
  the encoding without a hook and a wallet that accepts both transactions and returns
  their receipts, a payment to any recipient string submits the approval and the burn and
  ends in the success status.
\<close>

theorem payment_guards:
  "(account c = None \<or> account c = Some []
      \<longrightarrow> processPayment R c w
            = Some (w\<lparr>events := events w @ [Alert ''Please connect your wallet first'']\<rparr>))
   \<and> (amount c = [] \<or> (amount_value (amount c) = Some v \<and> v \<le> 0) \<longrightarrow> payButtonDisabled c)
   \<and> (account c = Some a \<and> a \<noteq> [] \<and> \<not> isProcessing c
       \<and> amount_value (amount c) = Some v \<and> 1 \<le> v \<longrightarrow> \<not> payButtonDisabled c)
   \<and> (k \<noteq> sourceChain c \<longrightarrow> selectDestination k c = c\<lparr>destinationChain := k\<rparr>)
   \<and> (k = sourceChain c \<longrightarrow> selectDestination k c = c)
   \<and> (destinationChain c \<noteq> sourceChain c
      \<longrightarrow> destinationChain (selectDestination k c) \<noteq> sourceChain (selectDestination k c))
   \<and> (account c = Some a \<and> a \<noteq> []
       \<and> map_of CHAIN_CONFIG (sourceChain c) = Some src
       \<and> map_of CHAIN_CONFIG (destinationChain c) = Some dst
       \<and> (selectedHook c = None \<or> \<not> fastTransferEnabled c)
       \<and> (\<forall>h f t d. \<exists>tx. eth_sendTransaction R h f t d = Inr tx)
       \<and> (\<forall>h tx. \<exists>r. eth_getTransactionReceipt R h tx = Inr (Some r))
      \<longrightarrow> (\<exists>w' ad d. processPayment R (c\<lparr>merchantAddress := m\<rparr>) w = Some w'
             \<and> last_status w' = Some Success
             \<and> encodeFunctionCall ''approve'' [(''spender'', JStr (tokenMessenger src)),
                   (''amount'', JNum (amountInUnits (amount c)))] = Inr ad
             \<and> caller_calldata (c\<lparr>merchantAddress := m\<rparr>) = Inr d
             \<and> submitted w' = submitted w @ [(usdc src, ad), (tokenMessenger src, d)]))"
proof (intro conjI impI; (elim conjE)?)
  show "processPayment R c w
      = Some (w\<lparr>events := events w @ [Alert ''Please connect your wallet first'']\<rparr>)"
    if "account c = None \<or> account c = Some []"
    using that by (rule payment_without_account)
  show "payButtonDisabled c" if "amount c = [] \<or> (amount_value (amount c) = Some v \<and> v \<le> 0)"
    using that button_disabled_empty [of c] button_disabled_nonpositive [of c v] by blast
  show "selectDestination k c = c\<lparr>destinationChain := k\<rparr>" if "k \<noteq> sourceChain c"
    using that by (rule selectDestination_sets)
  show "\<not> payButtonDisabled c"
    if "account c = Some a" "a \<noteq> []" "\<not> isProcessing c"
      "amount_value (amount c) = Some v" "1 \<le> v"
    using that by (rule button_enabled)
  show "selectDestination k c = c" if "k = sourceChain c"
    using that by (rule selectDestination_sets)
  show "destinationChain (selectDestination k c) \<noteq> sourceChain (selectDestination k c)"
    if "destinationChain c \<noteq> sourceChain c"
    using that by (rule selectDestination_keeps_route)
next
  assume "account c = Some a" "a \<noteq> []"
    "map_of CHAIN_CONFIG (sourceChain c) = Some src"
    "map_of CHAIN_CONFIG (destinationChain c) = Some dst"
    "selectedHook c = None \<or> \<not> fastTransferEnabled c"
    "\<forall>h f t d. \<exists>tx. eth_sendTransaction R h f t d = Inr tx"
    "\<forall>h tx. \<exists>r. eth_getTransactionReceipt R h tx = Inr (Some r)"
  with payment_succeeds_mined [of "c\<lparr>merchantAddress := m\<rparr>" a src dst R w]
  show "\<exists>w' ad d. processPayment R (c\<lparr>merchantAddress := m\<rparr>) w = Some w'
             \<and> last_status w' = Some Success
             \<and> encodeFunctionCall ''approve'' [(''spender'', JStr (tokenMessenger src)),
                   (''amount'', JNum (amountInUnits (amount c)))] = Inr ad
             \<and> caller_calldata (c\<lparr>merchantAddress := m\<rparr>) = Inr d
             \<and> submitted w' = submitted w @ [(usdc src, ad), (tokenMessenger src, d)]"
    by simp blast
qed

theorem payment_guards_witness:
  "processPayment cooperative (initial_state\<lparr>account := None\<rparr>) (start initial_state)
      = Some ((start initial_state)\<lparr>events := [Alert ''Please connect your wallet first'']\<rparr>)
   \<and> payButtonDisabled (initial_state\<lparr>amount := ''-2.5''\<rparr>)
   \<and> payButtonDisabled (initial_state\<lparr>amount := ''''\<rparr>)
   \<and> \<not> payButtonDisabled initial_state
   \<and> destinationChain (selectDestination 1 initial_state) = 42161
   \<and> destinationChain (selectDestination 8453 initial_state) = 8453
   \<and> destinationChain (selectDestination 1 initial_state)
       \<noteq> sourceChain (selectDestination 1 initial_state)
   \<and> map_option (\<lambda>w. (last_status w, length (submitted w)))
        (processPayment cooperative (standard_state\<lparr>merchantAddress := ''not an address''\<rparr>)
           (start standard_state))
      = Some (Some Success, 2)"
proof -
  let ?a = "''0x1111111111111111111111111111111111111111''"
  let ?src = "the (map_of CHAIN_CONFIG 1)"
  let ?dst = "the (map_of CHAIN_CONFIG 42161)"
  note facts = standard_state_facts cooperative_accepts
  have 1: "processPayment cooperative (initial_state\<lparr>account := None\<rparr>) (start initial_state)
      = Some ((start initial_state)\<lparr>events := [Alert ''Please connect your wallet first'']\<rparr>)"
    using payment_guards [where c = "initial_state\<lparr>account := None\<rparr>" and R = cooperative
        and w = "start initial_state", THEN conjunct1]
    by (simp add: start_def)
  have 2: "payButtonDisabled (initial_state\<lparr>amount := ''-2.5''\<rparr>)"
    using payment_guards [where c = "initial_state\<lparr>amount := ''-2.5''\<rparr>" and v = "- 5 / 2",
        THEN conjunct2, THEN conjunct1] amount_value_minus
    by simp
  have 3: "payButtonDisabled (initial_state\<lparr>amount := ''''\<rparr>)"
    using payment_guards [where c = "initial_state\<lparr>amount := ''''\<rparr>",
        THEN conjunct2, THEN conjunct1]
    by simp
  have 4: "destinationChain (selectDestination 1 initial_state) = 42161"
    using payment_guards [where c = initial_state and k = 1,
        THEN conjunct2, THEN conjunct2, THEN conjunct2, THEN conjunct2, THEN conjunct1]
    by (simp add: initial_state_def)
  have 6: "destinationChain (selectDestination 8453 initial_state) = 8453"
    using payment_guards [where c = initial_state and k = 8453,
        THEN conjunct2, THEN conjunct2, THEN conjunct2, THEN conjunct1]
    by (simp add: initial_state_def)
  have 8: "destinationChain (selectDestination 1 initial_state)
       \<noteq> sourceChain (selectDestination 1 initial_state)"
    using payment_guards [where c = initial_state and k = 1,
        THEN conjunct2, THEN conjunct2, THEN conjunct2, THEN conjunct2, THEN conjunct2,
        THEN conjunct1]
    by (simp add: initial_state_def)
  have 7: "\<not> payButtonDisabled initial_state"
    using payment_guards [where c = initial_state and a = ?a and v = 100,
        THEN conjunct2, THEN conjunct2, THEN conjunct1] amount_value_100
    by (simp add: initial_state_def)
  have "\<exists>w' ad d. processPayment cooperative (standard_state\<lparr>merchantAddress := ''not an address''\<rparr>)
          (start standard_state) = Some w'
      \<and> last_status w' = Some Success
      \<and> encodeFunctionCall ''approve'' [(''spender'', JStr (tokenMessenger ?src)),
            (''amount'', JNum (amountInUnits (amount standard_state)))] = Inr ad
      \<and> caller_calldata (standard_state\<lparr>merchantAddress := ''not an address''\<rparr>) = Inr d
      \<and> submitted w' = submitted (start standard_state) @ [(usdc ?src, ad), (tokenMessenger ?src, d)]"
    using payment_guards [where c = standard_state and R = cooperative and w = "start standard_state"
        and a = ?a and src = ?src and dst = ?dst and m = "''not an address''",
        THEN conjunct2, THEN conjunct2, THEN conjunct2, THEN conjunct2, THEN conjunct2,
        THEN conjunct2]
    by (simp add: facts cooperative_def)
  then have 5: "map_option (\<lambda>w. (last_status w, length (submitted w)))
        (processPayment cooperative (standard_state\<lparr>merchantAddress := ''not an address''\<rparr>)
           (start standard_state)) = Some (Some Success, 2)"
    by (auto simp: facts)
  from 1 2 3 4 5 6 7 8 show ?thesis by simp
qed

subsection \<open>Where errors end\<close>




subsection \<open>The status of a receipt\<close>




end
